theory Spec2Isabelle
  imports Main "HOL-Library.Word"
begin

unbundle bit_operations_syntax

section \<open>Values shared by the packages\<close>

text \<open>
  Go strings and byte slices are sequences of bytes; both are modelled by \<open>string\<close>.
  A Go \<open>error\<close> is a value: one made by \<open>errors.New\<close> or by \<open>fmt.Errorf\<close>
  without \<open>%w\<close> is \<open>ErrorString\<close> with its message, \<open>fmt.Errorf("...: %w", err)\<close>
  is \<open>Wrapped\<close> with the text before the colon and the error it wraps, and
  \<open>ErrNotExist\<close> is \<open>os.ErrNotExist\<close>. A function returning \<open>error\<close> returns
  \<open>error option\<close> here (\<open>None\<close> is \<open>nil\<close>); one returning a value and an error
  returns \<open>error + 'a\<close>.
\<close>

datatype error = ErrorString string | ErrNotExist | Wrapped string error

text \<open>\<open>errors.Is(err, os.ErrNotExist)\<close>: follows the chain of wrapped errors.\<close>

fun is_ErrNotExist :: "error \<Rightarrow> bool" where
  "is_ErrNotExist ErrNotExist = True"
| "is_ErrNotExist (Wrapped msg e) = is_ErrNotExist e"
| "is_ErrNotExist (ErrorString msg) = False"

text \<open>\<open>strings.TrimPrefix(s, prefix)\<close>\<close>

definition TrimPrefix :: "string \<Rightarrow> string \<Rightarrow> string" where
  "TrimPrefix s prefix = (if take (length prefix) s = prefix then drop (length prefix) s else s)"

section \<open>Package server: the session handler (session.go)\<close>

subsection \<open>Signal names\<close>

datatype signal = SIGINT | SIGTERM | SIGKILL | SIGQUIT | SIGHUP

text \<open>\<open>sshSignalToOS\<close>; \<open>None\<close> is the \<open>nil\<close> signal of the default case.\<close>

definition sshSignalToOS :: "string \<Rightarrow> signal option" where
  "sshSignalToOS name =
     (let signal = TrimPrefix name ''SIG'' in
      if signal = ''INT'' then Some SIGINT
      else if signal = ''TERM'' then Some SIGTERM
      else if signal = ''KILL'' then Some SIGKILL
      else if signal = ''QUIT'' then Some SIGQUIT
      else if signal = ''HUP'' then Some SIGHUP
      else None)"

subsection \<open>Requests and their payloads\<close>

text \<open>
  An \<open>ssh.Request\<close> as the handler reads it: its type, whether the peer wants a reply,
  and the payload bytes.
\<close>

record Request =
  Type :: string
  WantReply :: bool
  Payload :: string

text \<open>The anonymous payload structs of the request loop, one record for each.\<close>

record pty_req_payload =
  pty_Term :: string
  pty_Cols :: "32 word"
  pty_Rows :: "32 word"
  pty_Width :: "32 word"
  pty_Height :: "32 word"
  pty_Modes :: string

record env_payload =
  env_Key :: string
  env_Value :: string

record window_change_payload =
  wc_Cols :: "32 word"
  wc_Rows :: "32 word"
  wc_Width :: "32 word"
  wc_Height :: "32 word"

record exec_payload =
  exec_Command :: string

record signal_payload =
  sig_Signal :: string

text \<open>
  \<open>ssh.Unmarshal\<close> belongs to the SSH library, not to this repository. The handler
  calls it at five struct types; the five decoders are a parameter of the model, and
  a decoder returns \<open>None\<close> where \<open>ssh.Unmarshal\<close> returns an error. Every
  theorem below holds for all decoders.
\<close>

record codec =
  unmarshal_pty_req :: "string \<Rightarrow> pty_req_payload option"
  unmarshal_env :: "string \<Rightarrow> env_payload option"
  unmarshal_window_change :: "string \<Rightarrow> window_change_payload option"
  unmarshal_exec :: "string \<Rightarrow> exec_payload option"
  unmarshal_signal :: "string \<Rightarrow> signal_payload option"

subsection \<open>The child process and what the operating system answers\<close>

text \<open>
  The fields of \<open>exec.Cmd\<close> that \<open>start\<close> sets; \<open>Process\<close> is \<open>None\<close> until
  the process has been created, then its process id.
\<close>

record Cmd =
  Path :: string
  Args :: "string list"
  Env :: "string list"
  Dir :: string
  Process :: "nat option"

text \<open>
  \<open>start\<close> asks the operating system for a PTY, a pipe and a process. What it is
  answered is an input of the model: \<open>pty_start\<close> is the result of \<open>pty.Start\<close> or
  \<open>pty.StartWithSize\<close> (an error, or the PTY master and the process id),
  \<open>stdin_pipe\<close> the error of \<open>c.StdinPipe()\<close>, \<open>cmd_start\<close> the result of
  \<open>c.Start()\<close> (an error, or the process id).
\<close>

record start_outcome =
  pty_start :: "error + (nat \<times> nat)"
  stdin_pipe :: "error option"
  cmd_start :: "error + nat"

text \<open>
  What \<open>c.Wait()\<close> returns when it is not \<open>nil\<close>: an \<open>*exec.ExitError\<close>, of which
  the code reads \<open>ExitCode()\<close> (a Go \<open>int\<close>; \<open>-1\<close> when the process was
  terminated by a signal), or any other error.
\<close>

datatype wait_error = ExitError int | WaitFailed error

subsection \<open>Effects\<close>

text \<open>
  What the handler does to the outside, in the order it does it: replies to requests,
  log records (level and message), the PTY being asked for (with the window size
  passed to \<open>pty.StartWithSize\<close>, or \<open>None\<close> for \<open>pty.Start\<close>), the child
  process created, signals sent to the child, \<open>pty.Setsize\<close> on the PTY master, the
  \<open>exit-status\<close> channel request, the closing of the PTY master, and
  \<open>CloseWrite\<close> and \<open>Close\<close> on the channel. The byte pumps between channel and child (\<open>io.Copy\<close>) read and write no
  variable of the session and are left out.
\<close>

datatype effect =
    Reply bool
  | Log string string
  | OpenPTY "(16 word \<times> 16 word) option"
  | Launch Cmd
  | SignalChild signal
  | Setsize nat "16 word" "16 word"
  | ExitStatus "32 word"
  | ClosePTY nat
  | CloseWrite
  | CloseChannel

fun replies :: "effect list \<Rightarrow> bool list" where
  "replies [] = []"
| "replies (Reply b # out) = b # replies out"
| "replies (e # out) = replies out"

fun signals :: "effect list \<Rightarrow> signal list" where
  "signals [] = []"
| "signals (SignalChild g # out) = g # signals out"
| "signals (e # out) = signals out"

subsection \<open>The state of a session\<close>

text \<open>
  The variables of \<open>sessionHandler.handle\<close> that its closures share: \<open>env\<close>,
  \<open>cmd\<close>, \<open>ptmx\<close>, \<open>wantPTY\<close>, \<open>cols\<close>, \<open>rows\<close>, and \<open>finished\<close>
  (the \<open>sync.Once\<close>: \<open>True\<close> once its function has run). The goroutines that
  \<open>start\<close> leaves behind are counted: \<open>reapers\<close> are blocked in \<open>c.Wait()\<close>,
  \<open>watchers\<close> in \<open><-ctx.Done()\<close>. Three fields are the session's surroundings:
  \<open>terminated\<close> is \<open>None\<close> until the child has terminated and then holds what
  \<open>c.Wait()\<close> returns, \<open>ctx_done\<close> says whether the context has been cancelled,
  and \<open>closed\<close> whether the request stream has ended.
\<close>

record session =
  env :: "string list"
  cmd :: "Cmd option"
  ptmx :: "nat option"
  wantPTY :: bool
  cols :: "32 word"
  rows :: "32 word"
  finished :: bool
  reapers :: nat
  watchers :: nat
  terminated :: "wait_error option option"
  ctx_done :: bool
  closed :: bool

text \<open>The fields of \<open>sessionHandler\<close> that the code reads: \<open>h.user\<close> and \<open>h.srv.cfg.Shell\<close>.\<close>

record sessionHandler =
  user :: string
  cfg_Shell :: string

text \<open>The state when the request loop is entered; \<open>environ\<close> is \<open>os.Environ()\<close>.\<close>

definition init_session :: "sessionHandler \<Rightarrow> string list \<Rightarrow> session" where
  "init_session h environ =
     \<lparr>env = environ @ [''USER='' @ user h, ''LOGNAME='' @ user h, ''HOME=/'', ''SHELL='' @ cfg_Shell h],
      cmd = None, ptmx = None, wantPTY = False, cols = 0, rows = 0, finished = False,
      reapers = 0, watchers = 0, terminated = None, ctx_done = False, closed = False\<rparr>"

subsection \<open>start\<close>

text \<open>
  The closure \<open>start\<close>. It returns its error, the state and the effects. The two
  goroutines of its last lines are counted in \<open>watchers\<close> and \<open>reapers\<close>.
\<close>

definition start :: "sessionHandler \<Rightarrow> start_outcome \<Rightarrow> string \<Rightarrow> session \<Rightarrow> error option \<times> session \<times> effect list" where
  "start h oc command s =
     (if cmd s \<noteq> None then
        (Some (ErrorString ''session already running''), s, [Log ''WARN'' ''session start rejected''])
      else
        let args = (if command \<noteq> [] then [''-c'', command] else []);
            c = \<lparr>Path = cfg_Shell h, Args = cfg_Shell h # args, Env = env s, Dir = ''/'', Process = None\<rparr>
        in
        if wantPTY s then
          let ws_Cols = (if 0 < cols s then ucast (cols s) else 0 :: 16 word);
              ws_Rows = (if 0 < rows s then ucast (rows s) else 0 :: 16 word);
              ask = OpenPTY (if ws_Cols = 0 \<and> ws_Rows = 0 then None else Some (ws_Cols, ws_Rows))
          in
          (case pty_start oc of
             Inl err \<Rightarrow>
               (Some err, s\<lparr>ptmx := None\<rparr>, [ask, Log ''ERROR'' ''start pty shell failed''])
           | Inr (fd, pid) \<Rightarrow>
               let c' = c\<lparr>Process := Some pid\<rparr> in
               (None,
                s\<lparr>ptmx := Some fd, cmd := Some c', watchers := watchers s + 1, reapers := reapers s + 1\<rparr>,
                [ask, Launch c']))
        else
          (case stdin_pipe oc of
             Some err \<Rightarrow> (Some err, s, [Log ''ERROR'' ''allocate stdin pipe failed''])
           | None \<Rightarrow>
               (case cmd_start oc of
                  Inl err \<Rightarrow>
                    (Some err, s\<lparr>ptmx := None\<rparr>,
                     (case ptmx s of Some fd \<Rightarrow> [ClosePTY fd] | None \<Rightarrow> []) @
                     [Log ''ERROR'' ''launch shell failed''])
                | Inr pid \<Rightarrow>
                    let c' = c\<lparr>Process := Some pid\<rparr> in
                    (None,
                     s\<lparr>cmd := Some c', watchers := watchers s + 1, reapers := reapers s + 1\<rparr>,
                     [Launch c']))))"

subsection \<open>sendExitStatus\<close>

text \<open>
  The status that \<open>sendExitStatus\<close> computes from the result of \<open>c.Wait()\<close>;
  \<open>uint32(code)\<close> keeps the low 32 bits of the \<open>int\<close>.
\<close>

definition exit_status :: "wait_error option \<Rightarrow> 32 word" where
  "exit_status err =
     (case err of
        None \<Rightarrow> 0
      | Some (ExitError code) \<Rightarrow> (if 0 \<le> code then word_of_int code else 255)
      | Some (WaitFailed e) \<Rightarrow> 255)"

definition sendExitStatus :: "wait_error option \<Rightarrow> effect list" where
  "sendExitStatus err = [ExitStatus (exit_status err)]"

subsection \<open>The request loop\<close>

definition reply :: "Request \<Rightarrow> bool \<Rightarrow> effect list" where
  "reply req ok = (if WantReply req then [Reply ok] else [])"

text \<open>One iteration of \<open>for req := range h.requests\<close>.\<close>

definition handle_request :: "codec \<Rightarrow> sessionHandler \<Rightarrow> start_outcome \<Rightarrow> Request \<Rightarrow> session \<Rightarrow> session \<times> effect list" where
  "handle_request cd h oc req s =
     (if Type req = ''pty-req'' then
        (case unmarshal_pty_req cd (Payload req) of
           None \<Rightarrow> (s, reply req False)
         | Some payload \<Rightarrow>
             (s\<lparr>wantPTY := True, cols := pty_Cols payload, rows := pty_Rows payload,
                env := (if pty_Term payload \<noteq> [] then env s @ [''TERM='' @ pty_Term payload] else env s)\<rparr>,
              reply req True))
      else if Type req = ''env'' then
        (case unmarshal_env cd (Payload req) of
           None \<Rightarrow> (s, reply req False)
         | Some payload \<Rightarrow>
             if env_Key payload \<noteq> [] then
               (s\<lparr>env := env s @ [env_Key payload @ ''='' @ env_Value payload]\<rparr>, reply req True)
             else (s, reply req False))
      else if Type req = ''window-change'' then
        (case ptmx s of
           Some fd \<Rightarrow>
             (case unmarshal_window_change cd (Payload req) of
                Some payload \<Rightarrow>
                  (s\<lparr>cols := wc_Cols payload, rows := wc_Rows payload\<rparr>,
                   Setsize fd (ucast (wc_Cols payload)) (ucast (wc_Rows payload)) # reply req True)
              | None \<Rightarrow> (s, reply req True))
         | None \<Rightarrow> (s, reply req True))
      else if Type req = ''shell'' then
        (case start h oc [] s of
           (err, s', out) \<Rightarrow>
             (s', out @ reply req (err = None) @
                  (if err \<noteq> None then [Log ''ERROR'' ''shell request failed''] else [])))
      else if Type req = ''exec'' then
        (case unmarshal_exec cd (Payload req) of
           None \<Rightarrow> (s, reply req False)
         | Some payload \<Rightarrow>
             (case start h oc (exec_Command payload) s of
                (err, s', out) \<Rightarrow>
                  (s', out @ reply req (err = None) @
                       (if err \<noteq> None then [Log ''ERROR'' ''exec request failed''] else []))))
      else if Type req = ''signal'' then
        (case unmarshal_signal cd (Payload req) of
           Some payload \<Rightarrow>
             (case sshSignalToOS (sig_Signal payload) of
                Some sig \<Rightarrow>
                  (s, (case cmd s of
                         Some c \<Rightarrow> (if Process c \<noteq> None then [SignalChild sig] else [])
                       | None \<Rightarrow> []) @ reply req True)
              | None \<Rightarrow> (s, reply req True))
         | None \<Rightarrow> (s, reply req True))
      else (s, reply req False))"

subsection \<open>The session and its goroutines, one event at a time\<close>

text \<open>
  A session moves by events. \<open>Req\<close> is the request loop taking the next request
  (with what the operating system will answer if the request starts a child);
  \<open>RequestsClosed\<close> is the request stream ending, after which \<open>handle\<close> returns and
  its deferred function closes the channel; \<open>ChildExit\<close> is the child terminating,
  with what \<open>c.Wait()\<close> will return; \<open>WaitReturns\<close> is a reaper goroutine coming
  back from \<open>c.Wait()\<close> and running \<open>finished.Do\<close>; \<open>CtxCancelled\<close> is the
  cancellation of the context; \<open>WatcherWakes\<close> is a goroutine of \<open>start\<close> coming
  back from \<open><-ctx.Done()\<close>. \<open>step\<close> is \<open>None\<close> for an event that cannot happen in
  the state: a request after the stream has ended, the exit of a child that was not
  started or has exited already, a return of \<open>c.Wait()\<close> before the child has
  terminated or with no goroutine waiting, a second cancellation, a watcher waking
  before the cancellation.
\<close>

datatype event =
    Req Request start_outcome
  | RequestsClosed
  | ChildExit "wait_error option"
  | WaitReturns
  | CtxCancelled
  | WatcherWakes

definition step :: "codec \<Rightarrow> sessionHandler \<Rightarrow> event \<Rightarrow> session \<Rightarrow> (session \<times> effect list) option" where
  "step cd h ev s =
     (case ev of
        Req req oc \<Rightarrow> if closed s then None else Some (handle_request cd h oc req s)
      | RequestsClosed \<Rightarrow> if closed s then None else Some (s\<lparr>closed := True\<rparr>, [CloseWrite, CloseChannel])
      | ChildExit err \<Rightarrow>
          if cmd s \<noteq> None \<and> terminated s = None then Some (s\<lparr>terminated := Some err\<rparr>, []) else None
      | WaitReturns \<Rightarrow>
          (case terminated s of
             None \<Rightarrow> None
           | Some err \<Rightarrow>
               if reapers s = 0 then None
               else if finished s then Some (s\<lparr>reapers := reapers s - 1\<rparr>, [])
               else Some (s\<lparr>reapers := reapers s - 1, finished := True\<rparr>,
                          sendExitStatus err @ (case ptmx s of Some fd \<Rightarrow> [ClosePTY fd] | None \<Rightarrow> [])))
      | CtxCancelled \<Rightarrow> if ctx_done s then None else Some (s\<lparr>ctx_done := True\<rparr>, [])
      | WatcherWakes \<Rightarrow>
          if ctx_done s \<and> 0 < watchers s then
            Some (s\<lparr>watchers := watchers s - 1\<rparr>,
                  (case cmd s of
                     Some c \<Rightarrow> (if Process c \<noteq> None then [SignalChild SIGTERM] else [])
                   | None \<Rightarrow> []))
          else None)"

text \<open>
  A run is a list of events, each possible where it happens. Its trace lists every
  event, followed by the effects it had.
\<close>

datatype item = Ev event | Eff effect

fun run :: "codec \<Rightarrow> sessionHandler \<Rightarrow> session \<Rightarrow> event list \<Rightarrow> (session \<times> item list) option" where
  "run cd h s [] = Some (s, [])"
| "run cd h s (ev # evs) =
     (case step cd h ev s of
        None \<Rightarrow> None
      | Some (s', out) \<Rightarrow>
          (case run cd h s' evs of
             None \<Rightarrow> None
           | Some (s'', tr) \<Rightarrow> Some (s'', Ev ev # map Eff out @ tr)))"

fun effects :: "item list \<Rightarrow> effect list" where
  "effects [] = []"
| "effects (Eff e # tr) = e # effects tr"
| "effects (Ev ev # tr) = effects tr"

text \<open>The children created and the exit statuses sent, among a list of effects.\<close>

fun launches :: "effect list \<Rightarrow> Cmd list" where
  "launches [] = []"
| "launches (Launch c # out) = c # launches out"
| "launches (e # out) = launches out"

fun statuses :: "effect list \<Rightarrow> 32 word list" where
  "statuses [] = []"
| "statuses (ExitStatus st # out) = st # statuses out"
| "statuses (e # out) = statuses out"

subsection \<open>Decoders for the wire format\<close>

text \<open>
  Decoders to run the model on payload bytes, after the data encoding of the SSH
  protocol: a \<open>uint32\<close> is four bytes, the most significant first; a \<open>string\<close> is
  its length as a \<open>uint32\<close> and then its bytes; the fields of a struct follow one
  another; the last field of \<open>pty-req\<close> takes the rest; bytes left over are an error.
\<close>

definition parseUint32 :: "string \<Rightarrow> (32 word \<times> string) option" where
  "parseUint32 data =
     (case data of
        a # b # c # d # rest \<Rightarrow>
          Some (word_of_nat (((of_char a * 256 + of_char b) * 256 + of_char c) * 256 + of_char d), rest)
      | _ \<Rightarrow> None)"

definition parseString :: "string \<Rightarrow> (string \<times> string) option" where
  "parseString data =
     (case parseUint32 data of
        None \<Rightarrow> None
      | Some (n, rest) \<Rightarrow>
          if length rest < unat n then None else Some (take (unat n) rest, drop (unat n) rest))"

definition wire_pty_req :: "string \<Rightarrow> pty_req_payload option" where
  "wire_pty_req data =
     (case parseString data of None \<Rightarrow> None | Some (term, d1) \<Rightarrow>
      (case parseUint32 d1 of None \<Rightarrow> None | Some (c, d2) \<Rightarrow>
      (case parseUint32 d2 of None \<Rightarrow> None | Some (r, d3) \<Rightarrow>
      (case parseUint32 d3 of None \<Rightarrow> None | Some (w, d4) \<Rightarrow>
      (case parseUint32 d4 of None \<Rightarrow> None | Some (ht, d5) \<Rightarrow>
        Some \<lparr>pty_Term = term, pty_Cols = c, pty_Rows = r, pty_Width = w, pty_Height = ht, pty_Modes = d5\<rparr>)))))"

definition wire_env :: "string \<Rightarrow> env_payload option" where
  "wire_env data =
     (case parseString data of None \<Rightarrow> None | Some (k, d1) \<Rightarrow>
      (case parseString d1 of None \<Rightarrow> None | Some (v, d2) \<Rightarrow>
        if d2 = [] then Some \<lparr>env_Key = k, env_Value = v\<rparr> else None))"

definition wire_window_change :: "string \<Rightarrow> window_change_payload option" where
  "wire_window_change data =
     (case parseUint32 data of None \<Rightarrow> None | Some (c, d1) \<Rightarrow>
      (case parseUint32 d1 of None \<Rightarrow> None | Some (r, d2) \<Rightarrow>
      (case parseUint32 d2 of None \<Rightarrow> None | Some (w, d3) \<Rightarrow>
      (case parseUint32 d3 of None \<Rightarrow> None | Some (ht, d4) \<Rightarrow>
        if d4 = [] then Some \<lparr>wc_Cols = c, wc_Rows = r, wc_Width = w, wc_Height = ht\<rparr> else None))))"

definition wire_exec :: "string \<Rightarrow> exec_payload option" where
  "wire_exec data =
     (case parseString data of None \<Rightarrow> None | Some (c, d1) \<Rightarrow>
        if d1 = [] then Some \<lparr>exec_Command = c\<rparr> else None)"

definition wire_signal :: "string \<Rightarrow> signal_payload option" where
  "wire_signal data =
     (case parseString data of None \<Rightarrow> None | Some (g, d1) \<Rightarrow>
        if d1 = [] then Some \<lparr>sig_Signal = g\<rparr> else None)"

definition wire :: codec where
  "wire = \<lparr>unmarshal_pty_req = wire_pty_req, unmarshal_env = wire_env,
           unmarshal_window_change = wire_window_change, unmarshal_exec = wire_exec,
           unmarshal_signal = wire_signal\<rparr>"

text \<open>The encoders of the same format, to write payloads down.\<close>

definition put_uint32 :: "nat \<Rightarrow> string" where
  "put_uint32 n =
     [char_of (n div 16777216), char_of (n div 65536), char_of (n div 256), char_of n]"

definition put_string :: "string \<Rightarrow> string" where
  "put_string x = put_uint32 (length x) @ x"

section \<open>Package server: authentication and the host key (server.go)\<close>

subsection \<open>validateUser\<close>

text \<open>
  \<open>subtle.ConstantTimeByteEq\<close> and \<open>subtle.ConstantTimeCompare\<close> of the Go
  library, as they compute: the bytes are 8-bit words, the loop of
  \<open>ConstantTimeCompare\<close> is the \<open>foldl\<close> over all pairs of bytes.
\<close>

definition ConstantTimeByteEq :: "8 word \<Rightarrow> 8 word \<Rightarrow> int" where
  "ConstantTimeByteEq x y = uint (drop_bit 31 ((ucast (x XOR y) :: 32 word) - 1))"

definition ConstantTimeCompare :: "string \<Rightarrow> string \<Rightarrow> int" where
  "ConstantTimeCompare x y =
     (if length x \<noteq> length y then 0
      else ConstantTimeByteEq
             (foldl (\<lambda>v (a, b). v OR (of_char a XOR of_char b)) 0 (zip x y)) 0)"

text \<open>
  \<open>Server.validateUser\<close>, with \<open>s.creds\<close> and \<open>conn.User()\<close> as arguments. It
  returns \<open>nil\<close> permissions always, so the result is its error.
\<close>

definition validateUser :: "(string \<rightharpoonup> string) \<Rightarrow> string \<Rightarrow> string \<Rightarrow> error option" where
  "validateUser creds conn_User password =
     (case creds conn_User of
        None \<Rightarrow> Some (ErrorString (''unknown user '' @ conn_User))
      | Some expected \<Rightarrow>
          if ConstantTimeCompare expected password \<noteq> 1
          then Some (ErrorString (''invalid credentials for '' @ conn_User))
          else None)"

text \<open>
  The answer to the peer is written by the SSH library, not by this repository: after
  the password callback has returned, the library sends \<open>SSH_MSG_USERAUTH_SUCCESS\<close>
  when the error is \<open>nil\<close> and \<open>SSH_MSG_USERAUTH_FAILURE\<close> otherwise; the failure
  message carries the authentication methods that may continue and nothing of the
  error, which stays on the server (it is returned by \<open>ssh.NewServerConn\<close> when the
  handshake is given up, and \<open>handleConnection\<close> logs it).
\<close>

datatype auth_message = USERAUTH_SUCCESS | USERAUTH_FAILURE

definition password_auth :: "(string \<rightharpoonup> string) \<Rightarrow> string \<Rightarrow> string \<Rightarrow> auth_message" where
  "password_auth creds conn_User password =
     (case validateUser creds conn_User password of
        None \<Rightarrow> USERAUTH_SUCCESS
      | Some err \<Rightarrow> USERAUTH_FAILURE)"

subsection \<open>loadOrCreateHostKey\<close>

text \<open>
  The calls that \<open>loadOrCreateHostKey\<close> makes on the file system, with their
  arguments (the permission bits in decimal).
\<close>

datatype fs_call =
    MkdirAll string nat
  | ReadFile string
  | WriteFile string string nat

text \<open>
  What the function is given from outside the repository: \<open>filepath.Dir\<close>, the
  results of \<open>os.MkdirAll\<close>, \<open>os.ReadFile\<close> and \<open>os.WriteFile\<close>, the result of
  \<open>rsa.GenerateKey\<close>, the PEM encoding of a generated key
  (\<open>pem.EncodeToMemory\<close> of its PKCS#1 block), and \<open>ssh.ParsePrivateKey\<close>.
  \<open>os_ReadFile\<close> is the file system as the function sees it: at a path where
  nothing exists it is an error \<open>err\<close> with \<open>errors.Is(err, os.ErrNotExist)\<close>.
\<close>

record ('key, 'signer) host_os =
  filepath_Dir :: "string \<Rightarrow> string"
  os_MkdirAll :: "string \<Rightarrow> error option"
  os_ReadFile :: "string \<Rightarrow> error + string"
  os_WriteFile :: "string \<Rightarrow> string \<Rightarrow> error option"
  rsa_GenerateKey :: "error + 'key"
  pem_Encode :: "'key \<Rightarrow> string"
  ssh_ParsePrivateKey :: "string \<Rightarrow> error + 'signer"

definition exists_at :: "('key, 'signer) host_os \<Rightarrow> string \<Rightarrow> bool" where
  "exists_at os path = (case os_ReadFile os path of Inl err \<Rightarrow> \<not> is_ErrNotExist err | Inr pemBytes \<Rightarrow> True)"

definition generateHostKey :: "('key, 'signer) host_os \<Rightarrow> error + string" where
  "generateHostKey os =
     (case rsa_GenerateKey os of
        Inl err \<Rightarrow> Inl (Wrapped ''generate rsa key'' err)
      | Inr key \<Rightarrow> Inr (pem_Encode os key))"

definition parseHostKey :: "('key, 'signer) host_os \<Rightarrow> string \<Rightarrow> error + 'signer" where
  "parseHostKey os pemBytes =
     (case ssh_ParsePrivateKey os pemBytes of
        Inl err \<Rightarrow> Inl (Wrapped ''parse host key'' err)
      | Inr signer \<Rightarrow> Inr signer)"

text \<open>\<open>loadOrCreateHostKey\<close>: its result and the file-system calls it made, in order.\<close>

definition loadOrCreateHostKey :: "('key, 'signer) host_os \<Rightarrow> string \<Rightarrow> (error + 'signer) \<times> fs_call list" where
  "loadOrCreateHostKey os path =
     (case os_MkdirAll os (filepath_Dir os path) of
        Some err \<Rightarrow>
          (Inl (Wrapped ''ensure host key directory'' err), [MkdirAll (filepath_Dir os path) 448])
      | None \<Rightarrow>
          (case os_ReadFile os path of
             Inl err \<Rightarrow>
               if is_ErrNotExist err then
                 (case generateHostKey os of
                    Inl err' \<Rightarrow> (Inl err', [MkdirAll (filepath_Dir os path) 448, ReadFile path])
                  | Inr pemBytes \<Rightarrow>
                      (case os_WriteFile os path pemBytes of
                         Some err' \<Rightarrow>
                           (Inl (Wrapped ''write host key'' err'),
                            [MkdirAll (filepath_Dir os path) 448, ReadFile path, WriteFile path pemBytes 384])
                       | None \<Rightarrow>
                           (parseHostKey os pemBytes,
                            [MkdirAll (filepath_Dir os path) 448, ReadFile path, WriteFile path pemBytes 384])))
               else (Inl (Wrapped ''read host key'' err), [MkdirAll (filepath_Dir os path) 448, ReadFile path])
           | Inr pemBytes \<Rightarrow>
               (parseHostKey os pemBytes, [MkdirAll (filepath_Dir os path) 448, ReadFile path])))"

fun is_WriteFile :: "fs_call \<Rightarrow> bool" where
  "is_WriteFile (WriteFile path bytes perm) = True"
| "is_WriteFile c = False"

section \<open>Package config\<close>

record User =
  Username :: string
  Password :: string

record Config =
  ListenAddress :: string
  ListenPort :: int
  HostKeyPath :: string
  Shell :: string
  Users :: "User list"
  configDir :: string

text \<open>
  What the package is given from outside the repository: \<open>os.ReadFile\<close>,
  \<open>json.Unmarshal\<close> into a \<open>Config\<close>, \<open>filepath.Dir\<close>, \<open>filepath.Join\<close> of two
  elements, \<open>filepath.IsAbs\<close>, \<open>os.Getenv\<close> and \<open>strings.TrimSpace\<close>.
\<close>

record platform =
  ReadFile_of :: "string \<Rightarrow> error + string"
  json_Unmarshal :: "string \<Rightarrow> error + Config"
  Dir_of :: "string \<Rightarrow> string"
  Join :: "string \<Rightarrow> string \<Rightarrow> string"
  IsAbs :: "string \<Rightarrow> bool"
  Getenv :: "string \<Rightarrow> string"
  TrimSpace :: "string \<Rightarrow> string"

text \<open>The verb \<open>%d\<close> of \<open>fmt.Sprintf\<close> at an \<open>int\<close>: the number in decimal.\<close>

definition digit :: "nat \<Rightarrow> char" where
  "digit d = ''0123456789'' ! d"

fun decimal :: "nat \<Rightarrow> string" where
  "decimal n = (if n < 10 then [digit n] else decimal (n div 10) @ [digit (n mod 10)])"

declare decimal.simps [simp del]

definition Sprintf_d :: "int \<Rightarrow> string" where
  "Sprintf_d i = (if i < 0 then CHR ''-'' # decimal (nat (- i)) else decimal (nat i))"

definition Credentials :: "Config \<Rightarrow> (string \<rightharpoonup> string)" where
  "Credentials c = foldl (\<lambda>creds u. creds(Username u \<mapsto> Password u)) Map.empty (Users c)"

definition applyDefaults :: "platform \<Rightarrow> Config \<Rightarrow> Config" where
  "applyDefaults pf c =
     (let c1 = (if ListenAddress c = [] then
                  (if 0 < ListenPort c then c\<lparr>ListenAddress := '':'' @ Sprintf_d (ListenPort c)\<rparr>
                   else c\<lparr>ListenAddress := '':2222''\<rparr>)
                else c);
          c2 = (if HostKeyPath c1 = [] then c1\<lparr>HostKeyPath := Join pf (configDir c1) ''tinyssh_host_key''\<rparr>
                else if \<not> IsAbs pf (HostKeyPath c1) then c1\<lparr>HostKeyPath := Join pf (configDir c1) (HostKeyPath c1)\<rparr>
                else c1)
      in if Shell c2 = [] then
           (if Getenv pf ''SHELL'' \<noteq> [] then c2\<lparr>Shell := Getenv pf ''SHELL''\<rparr>
            else c2\<lparr>Shell := ''/bin/sh''\<rparr>)
         else c2)"

text \<open>The loop of \<open>validate\<close> over the users, with the set \<open>seen\<close>.\<close>

fun validate_users :: "platform \<Rightarrow> string set \<Rightarrow> User list \<Rightarrow> error option" where
  "validate_users pf seen [] = None"
| "validate_users pf seen (u # us) =
     (let username = TrimSpace pf (Username u) in
      if username = [] then Some (ErrorString ''user username cannot be empty'')
      else if Password u = [] then Some (ErrorString (''user '' @ username @ '' must have a password''))
      else if username \<in> seen then Some (ErrorString (''duplicate user '' @ username))
      else validate_users pf (insert username seen) us)"

definition validate :: "platform \<Rightarrow> Config \<Rightarrow> error option" where
  "validate pf c =
     (if ListenAddress c = [] then Some (ErrorString ''listen address is required'')
      else if length (Users c) = 0 then Some (ErrorString ''at least one user must be configured'')
      else validate_users pf {} (Users c))"

definition Load :: "platform \<Rightarrow> string \<Rightarrow> error + Config" where
  "Load pf path =
     (case ReadFile_of pf path of
        Inl err \<Rightarrow> Inl (Wrapped ''read config'' err)
      | Inr raw \<Rightarrow>
          (case json_Unmarshal pf raw of
             Inl err \<Rightarrow> Inl (Wrapped ''parse config'' err)
           | Inr cfg \<Rightarrow>
               (let cfg' = applyDefaults pf (cfg\<lparr>configDir := Dir_of pf path\<rparr>) in
                case validate pf cfg' of
                  Some err \<Rightarrow> Inl err
                | None \<Rightarrow> Inr cfg')))"

section \<open>A session to run the model on\<close>

text \<open>
  The user \<open>demo\<close> with the shell \<open>/bin/sh\<close>; an operating system that grants what
  \<open>start\<close> asks for (PTY master 3, process 100) and one that refuses the PTY and the
  process; the requests of an interactive session.
\<close>

definition demo :: sessionHandler where
  "demo = \<lparr>user = ''demo'', cfg_Shell = ''/bin/sh''\<rparr>"

definition granted :: start_outcome where
  "granted = \<lparr>pty_start = Inr (3, 100), stdin_pipe = None, cmd_start = Inr 100\<rparr>"

definition refused :: start_outcome where
  "refused = \<lparr>pty_start = Inl (ErrorString ''no pty''), stdin_pipe = None,
               cmd_start = Inl (ErrorString ''exec format error'')\<rparr>"

definition pty_request :: Request where
  "pty_request = \<lparr>Type = ''pty-req'', WantReply = True,
     Payload = put_string ''xterm'' @ put_uint32 80 @ put_uint32 24 @ put_uint32 0 @ put_uint32 0 @ put_string []\<rparr>"

definition shell_request :: Request where
  "shell_request = \<lparr>Type = ''shell'', WantReply = True, Payload = []\<rparr>"

definition exec_request :: Request where
  "exec_request = \<lparr>Type = ''exec'', WantReply = True, Payload = put_string ''echo hello''\<rparr>"

definition env_request :: Request where
  "env_request = \<lparr>Type = ''env'', WantReply = True, Payload = put_string ''LANG'' @ put_string ''C''\<rparr>"

definition window_request :: Request where
  "window_request = \<lparr>Type = ''window-change'', WantReply = True,
     Payload = put_uint32 120 @ put_uint32 40 @ put_uint32 0 @ put_uint32 0\<rparr>"

definition signal_request :: Request where
  "signal_request = \<lparr>Type = ''signal'', WantReply = True, Payload = put_string ''SIGTERM''\<rparr>"

text \<open>
  The session after \<open>shell\<close> has started a child without a PTY; the session after
  \<open>pty-req\<close>, and after \<open>shell\<close> has then started a child on the PTY.
\<close>

definition running :: session where
  "running = fst (handle_request wire demo granted shell_request (init_session demo []))"

definition asked_pty :: session where
  "asked_pty = fst (handle_request wire demo granted pty_request (init_session demo []))"

definition running_pty :: session where
  "running_pty = fst (handle_request wire demo granted shell_request asked_pty)"

text \<open>
  The events of a short session: \<open>shell\<close> starts the child, the child exits with
  status 0, the reaper comes back from \<open>c.Wait()\<close>.
\<close>

definition short_session :: "event list" where
  "short_session = [Req shell_request granted, ChildExit None, WaitReturns]"

section \<open>A host and a configuration to run the model on\<close>

text \<open>
  A host where every call succeeds and the host-key path holds no file, and the same
  host once the file has been written. Keys and signers are strings here.
\<close>

definition first_boot :: "(string, string) host_os" where
  "first_boot =
     \<lparr>filepath_Dir = (\<lambda>path. ''/etc/tinyssh''), os_MkdirAll = (\<lambda>dir. None),
      os_ReadFile = (\<lambda>path. Inl (Wrapped ''open'' ErrNotExist)), os_WriteFile = (\<lambda>path bytes. None),
      rsa_GenerateKey = Inr ''key'', pem_Encode = (\<lambda>key. ''PEM '' @ key),
      ssh_ParsePrivateKey = (\<lambda>bytes. Inr (''signer of '' @ bytes))\<rparr>"

definition later_boot :: "(string, string) host_os" where
  "later_boot =
     first_boot\<lparr>os_ReadFile :=
       (\<lambda>path. if path = ''/etc/tinyssh/host_key'' then Inr ''PEM key'' else Inl (Wrapped ''open'' ErrNotExist))\<rparr>"

text \<open>
  A configuration file that gives one user and the port 2022, and no listen address,
  and a platform that holds it.
\<close>

definition demo_config :: Config where
  "demo_config =
     \<lparr>ListenAddress = [], ListenPort = 2022, HostKeyPath = ''/etc/tinyssh/host_key'',
      Shell = ''/bin/sh'', Users = [\<lparr>Username = ''demo'', Password = ''pw''\<rparr>], configDir = []\<rparr>"

definition port_only :: platform where
  "port_only =
     \<lparr>ReadFile_of = (\<lambda>path. Inr ''{}''), json_Unmarshal = (\<lambda>raw. Inr demo_config),
      Dir_of = (\<lambda>path. ''/etc/tinyssh''), Join = (\<lambda>a b. a @ ''/'' @ b), IsAbs = (\<lambda>path. take 1 path = ''/''),
      Getenv = (\<lambda>name. []), TrimSpace = (\<lambda>x. x)\<rparr>"

section \<open>Properties of the session handler\<close>

subsection \<open>Reading lists of effects\<close>

lemma replies_append: "replies (xs @ ys) = replies xs @ replies ys"
  by (induction xs rule: replies.induct) simp_all

lemma signals_append: "signals (xs @ ys) = signals xs @ signals ys"
  by (induction xs rule: signals.induct) simp_all

lemma launches_append: "launches (xs @ ys) = launches xs @ launches ys"
  by (induction xs rule: launches.induct) simp_all

lemma statuses_append: "statuses (xs @ ys) = statuses xs @ statuses ys"
  by (induction xs rule: statuses.induct) simp_all

lemma effects_append: "effects (xs @ ys) = effects xs @ effects ys"
  by (induction xs rule: effects.induct) simp_all

lemma effects_map_Eff: "effects (map Eff out) = out"
  by (induction out) simp_all

lemma reply_reads:
  "replies (reply req ok) = (if WantReply req then [ok] else [])"
  "signals (reply req ok) = []"
  "launches (reply req ok) = []"
  "statuses (reply req ok) = []"
  by (simp_all add: reply_def)

lemma statuses_mem: "st \<in> set (statuses out) \<longleftrightarrow> ExitStatus st \<in> set out"
  by (induction out rule: statuses.induct) auto

subsection \<open>The request loop, one request type at a time\<close>

lemma handle_pty_req:
  "Type req = ''pty-req'' \<Longrightarrow>
   handle_request cd h oc req s =
     (case unmarshal_pty_req cd (Payload req) of
        None \<Rightarrow> (s, reply req False)
      | Some payload \<Rightarrow>
          (s\<lparr>wantPTY := True, cols := pty_Cols payload, rows := pty_Rows payload,
             env := (if pty_Term payload \<noteq> [] then env s @ [''TERM='' @ pty_Term payload] else env s)\<rparr>,
           reply req True))"
  by (simp add: handle_request_def)

lemma handle_env:
  "Type req = ''env'' \<Longrightarrow>
   handle_request cd h oc req s =
     (case unmarshal_env cd (Payload req) of
        None \<Rightarrow> (s, reply req False)
      | Some payload \<Rightarrow>
          if env_Key payload \<noteq> [] then
            (s\<lparr>env := env s @ [env_Key payload @ ''='' @ env_Value payload]\<rparr>, reply req True)
          else (s, reply req False))"
  by (simp add: handle_request_def)

lemma handle_window_change:
  "Type req = ''window-change'' \<Longrightarrow>
   handle_request cd h oc req s =
     (case ptmx s of
        Some fd \<Rightarrow>
          (case unmarshal_window_change cd (Payload req) of
             Some payload \<Rightarrow>
               (s\<lparr>cols := wc_Cols payload, rows := wc_Rows payload\<rparr>,
                Setsize fd (ucast (wc_Cols payload)) (ucast (wc_Rows payload)) # reply req True)
           | None \<Rightarrow> (s, reply req True))
      | None \<Rightarrow> (s, reply req True))"
  by (simp add: handle_request_def)

lemma handle_shell:
  "Type req = ''shell'' \<Longrightarrow>
   handle_request cd h oc req s =
     (case start h oc [] s of
        (err, s', out) \<Rightarrow>
          (s', out @ reply req (err = None) @
               (if err \<noteq> None then [Log ''ERROR'' ''shell request failed''] else [])))"
  by (simp add: handle_request_def)

lemma handle_exec:
  "Type req = ''exec'' \<Longrightarrow>
   handle_request cd h oc req s =
     (case unmarshal_exec cd (Payload req) of
        None \<Rightarrow> (s, reply req False)
      | Some payload \<Rightarrow>
          (case start h oc (exec_Command payload) s of
             (err, s', out) \<Rightarrow>
               (s', out @ reply req (err = None) @
                    (if err \<noteq> None then [Log ''ERROR'' ''exec request failed''] else []))))"
  by (simp add: handle_request_def)

lemma handle_signal:
  "Type req = ''signal'' \<Longrightarrow>
   handle_request cd h oc req s =
     (case unmarshal_signal cd (Payload req) of
        Some payload \<Rightarrow>
          (case sshSignalToOS (sig_Signal payload) of
             Some sig \<Rightarrow>
               (s, (case cmd s of
                      Some c \<Rightarrow> (if Process c \<noteq> None then [SignalChild sig] else [])
                    | None \<Rightarrow> []) @ reply req True)
           | None \<Rightarrow> (s, reply req True))
      | None \<Rightarrow> (s, reply req True))"
  by (simp add: handle_request_def)

lemma handle_other:
  "Type req \<notin> {''pty-req'', ''env'', ''window-change'', ''shell'', ''exec'', ''signal''} \<Longrightarrow>
   handle_request cd h oc req s = (s, reply req False)"
  by (simp add: handle_request_def)

subsection \<open>The example session, evaluated\<close>

lemma wire_payloads:
  "unmarshal_pty_req wire (Payload pty_request) =
     Some \<lparr>pty_Term = ''xterm'', pty_Cols = 80, pty_Rows = 24, pty_Width = 0, pty_Height = 0,
           pty_Modes = put_string []\<rparr>"
  "unmarshal_env wire (Payload env_request) = Some \<lparr>env_Key = ''LANG'', env_Value = ''C''\<rparr>"
  "unmarshal_window_change wire (Payload window_request) =
     Some \<lparr>wc_Cols = 120, wc_Rows = 40, wc_Width = 0, wc_Height = 0\<rparr>"
  "unmarshal_exec wire (Payload exec_request) = Some \<lparr>exec_Command = ''echo hello''\<rparr>"
  "unmarshal_signal wire (Payload signal_request) = Some \<lparr>sig_Signal = ''SIGTERM''\<rparr>"
  by (simp_all add: wire_def wire_pty_req_def wire_env_def wire_window_change_def wire_exec_def
      wire_signal_def pty_request_def env_request_def window_request_def exec_request_def
      signal_request_def put_string_def put_uint32_def parseString_def parseUint32_def)

lemma request_types:
  "Type pty_request = ''pty-req''" "Type env_request = ''env''"
  "Type window_request = ''window-change''" "Type shell_request = ''shell''"
  "Type exec_request = ''exec''" "Type signal_request = ''signal''"
  "WantReply pty_request" "WantReply env_request" "WantReply window_request"
  "WantReply shell_request" "WantReply exec_request" "WantReply signal_request"
  by (simp_all add: pty_request_def env_request_def window_request_def shell_request_def
      exec_request_def signal_request_def)

lemma demo_fields: "user demo = ''demo''" "cfg_Shell demo = ''/bin/sh''"
  by (simp_all add: demo_def)

lemma init_demo:
  "init_session demo [] =
     \<lparr>env = [''USER=demo'', ''LOGNAME=demo'', ''HOME=/'', ''SHELL=/bin/sh''],
      cmd = None, ptmx = None, wantPTY = False, cols = 0, rows = 0, finished = False,
      reapers = 0, watchers = 0, terminated = None, ctx_done = False, closed = False\<rparr>"
  by (simp add: init_session_def demo_def)

lemma shell_starts:
  "handle_request wire demo granted shell_request (init_session demo []) =
     (running,
      [Launch \<lparr>Path = ''/bin/sh'', Args = [''/bin/sh''],
               Env = [''USER=demo'', ''LOGNAME=demo'', ''HOME=/'', ''SHELL=/bin/sh''],
               Dir = ''/'', Process = Some 100\<rparr>,
       Reply True])"
  by (simp add: running_def handle_shell request_types init_demo start_def demo_fields granted_def
      reply_def Let_def)

lemma running_eq:
  "running =
     \<lparr>env = [''USER=demo'', ''LOGNAME=demo'', ''HOME=/'', ''SHELL=/bin/sh''],
      cmd = Some \<lparr>Path = ''/bin/sh'', Args = [''/bin/sh''],
                  Env = [''USER=demo'', ''LOGNAME=demo'', ''HOME=/'', ''SHELL=/bin/sh''],
                  Dir = ''/'', Process = Some 100\<rparr>,
      ptmx = None, wantPTY = False, cols = 0, rows = 0, finished = False,
      reapers = 1, watchers = 1, terminated = None, ctx_done = False, closed = False\<rparr>"
  by (simp add: running_def handle_shell request_types init_demo start_def demo_fields granted_def
      reply_def Let_def)

lemma asked_pty_eq:
  "asked_pty =
     \<lparr>env = [''USER=demo'', ''LOGNAME=demo'', ''HOME=/'', ''SHELL=/bin/sh'', ''TERM=xterm''],
      cmd = None, ptmx = None, wantPTY = True, cols = 80, rows = 24, finished = False,
      reapers = 0, watchers = 0, terminated = None, ctx_done = False, closed = False\<rparr>"
  by (simp add: asked_pty_def handle_pty_req request_types wire_payloads init_demo reply_def)

lemma running_pty_eq:
  "running_pty =
     \<lparr>env = [''USER=demo'', ''LOGNAME=demo'', ''HOME=/'', ''SHELL=/bin/sh'', ''TERM=xterm''],
      cmd = Some \<lparr>Path = ''/bin/sh'', Args = [''/bin/sh''],
                  Env = [''USER=demo'', ''LOGNAME=demo'', ''HOME=/'', ''SHELL=/bin/sh'', ''TERM=xterm''],
                  Dir = ''/'', Process = Some 100\<rparr>,
      ptmx = Some 3, wantPTY = True, cols = 80, rows = 24, finished = False,
      reapers = 1, watchers = 1, terminated = None, ctx_done = False, closed = False\<rparr>"
  by (simp add: running_pty_def handle_shell request_types asked_pty_eq
      start_def demo_fields granted_def reply_def Let_def)

subsection \<open>Signals\<close>

lemma TrimPrefix_append: "TrimPrefix (p @ r) p = r"
  by (simp add: TrimPrefix_def)

lemma TrimPrefix_other: "take (length p) name \<noteq> p \<Longrightarrow> TrimPrefix name p = name"
  by (simp add: TrimPrefix_def)

lemma sshSignalToOS_table:
  "(sshSignalToOS name = Some SIGINT \<longleftrightarrow> name = ''INT'' \<or> name = ''SIGINT'') \<and>
   (sshSignalToOS name = Some SIGTERM \<longleftrightarrow> name = ''TERM'' \<or> name = ''SIGTERM'') \<and>
   (sshSignalToOS name = Some SIGKILL \<longleftrightarrow> name = ''KILL'' \<or> name = ''SIGKILL'') \<and>
   (sshSignalToOS name = Some SIGQUIT \<longleftrightarrow> name = ''QUIT'' \<or> name = ''SIGQUIT'') \<and>
   (sshSignalToOS name = Some SIGHUP \<longleftrightarrow> name = ''HUP'' \<or> name = ''SIGHUP'')"
proof (cases "take (length ''SIG'') name = ''SIG''")
  case True
  then have "name = ''SIG'' @ drop (length ''SIG'') name"
    by (metis append_take_drop_id)
  then obtain r where r: "name = ''SIG'' @ r" ..
  show ?thesis
    unfolding r sshSignalToOS_def TrimPrefix_append Let_def by auto
next
  case False
  then have ne: "name \<noteq> ''SIGINT''" "name \<noteq> ''SIGTERM''" "name \<noteq> ''SIGKILL''"
    "name \<noteq> ''SIGQUIT''" "name \<noteq> ''SIGHUP''"
    by auto
  show ?thesis
    unfolding sshSignalToOS_def TrimPrefix_other [OF False] Let_def using ne by auto
qed

text \<open>
  C9. A \<open>signal\<close> request changes nothing in the session and is answered \<open>true\<close> when
  an answer is wanted. When its payload decodes to a name that \<open>sshSignalToOS\<close>
  translates and a child has been started, exactly that signal is sent to the child;
  when the name is not translated, the payload does not decode or no child has been
  started, no signal is sent. \<open>sshSignalToOS\<close> translates \<open>INT\<close>, \<open>TERM\<close>,
  \<open>KILL\<close>, \<open>QUIT\<close> and \<open>HUP\<close>, each with or without one leading \<open>SIG\<close>, to the
  signal of that name, and nothing else.
\<close>

theorem signal_forwarded:
  assumes "Type req = ''signal''"
  shows "fst (handle_request cd h oc req s) = s \<and>
         replies (snd (handle_request cd h oc req s)) = (if WantReply req then [True] else []) \<and>
         (\<forall>payload sig c pid.
            unmarshal_signal cd (Payload req) = Some payload \<and>
            sshSignalToOS (sig_Signal payload) = Some sig \<and> cmd s = Some c \<and> Process c = Some pid
            \<longrightarrow> signals (snd (handle_request cd h oc req s)) = [sig]) \<and>
         (\<forall>payload.
            unmarshal_signal cd (Payload req) = Some payload \<and> sshSignalToOS (sig_Signal payload) = None
            \<longrightarrow> signals (snd (handle_request cd h oc req s)) = []) \<and>
         (unmarshal_signal cd (Payload req) = None \<or> cmd s = None
            \<longrightarrow> signals (snd (handle_request cd h oc req s)) = []) \<and>
         (sshSignalToOS name = Some SIGINT \<longleftrightarrow> name = ''INT'' \<or> name = ''SIGINT'') \<and>
         (sshSignalToOS name = Some SIGTERM \<longleftrightarrow> name = ''TERM'' \<or> name = ''SIGTERM'') \<and>
         (sshSignalToOS name = Some SIGKILL \<longleftrightarrow> name = ''KILL'' \<or> name = ''SIGKILL'') \<and>
         (sshSignalToOS name = Some SIGQUIT \<longleftrightarrow> name = ''QUIT'' \<or> name = ''SIGQUIT'') \<and>
         (sshSignalToOS name = Some SIGHUP \<longleftrightarrow> name = ''HUP'' \<or> name = ''SIGHUP'')"
proof -
  have state: "fst (handle_request cd h oc req s) = s"
    by (simp add: handle_signal [OF assms] split: option.splits)
  have answer: "replies (snd (handle_request cd h oc req s)) = (if WantReply req then [True] else [])"
    by (simp add: handle_signal [OF assms] replies_append reply_reads split: option.splits)
  have sent: "\<forall>payload sig c pid.
            unmarshal_signal cd (Payload req) = Some payload \<and>
            sshSignalToOS (sig_Signal payload) = Some sig \<and> cmd s = Some c \<and> Process c = Some pid
            \<longrightarrow> signals (snd (handle_request cd h oc req s)) = [sig]"
    by (simp add: handle_signal [OF assms] signals_append reply_reads)
  have unknown: "\<forall>payload.
            unmarshal_signal cd (Payload req) = Some payload \<and> sshSignalToOS (sig_Signal payload) = None
            \<longrightarrow> signals (snd (handle_request cd h oc req s)) = []"
    by (simp add: handle_signal [OF assms] reply_reads)
  have none: "unmarshal_signal cd (Payload req) = None \<or> cmd s = None
            \<longrightarrow> signals (snd (handle_request cd h oc req s)) = []"
    by (auto simp: handle_signal [OF assms] signals_append reply_reads split: option.splits)
  show ?thesis
    by (rule conjI [OF state conjI [OF answer conjI [OF sent conjI [OF unknown
          conjI [OF none sshSignalToOS_table [of name]]]]]])
qed

theorem signal_forwarded_witness:
  "Type signal_request = ''signal'' \<and>
   unmarshal_signal wire (Payload signal_request) = Some \<lparr>sig_Signal = ''SIGTERM''\<rparr> \<and>
   sshSignalToOS ''SIGTERM'' = Some SIGTERM \<and>
   cmd running \<noteq> None \<and>
   fst (handle_request wire demo granted signal_request running) = running \<and>
   replies (snd (handle_request wire demo granted signal_request running)) = [True] \<and>
   signals (snd (handle_request wire demo granted signal_request running)) = [SIGTERM]"
proof -
  have t: "Type signal_request = ''signal''" by (simp add: request_types)
  have tr: "sshSignalToOS ''SIGTERM'' = Some SIGTERM"
    by (simp add: sshSignalToOS_def TrimPrefix_def)
  have c: "cmd running = Some \<lparr>Path = ''/bin/sh'', Args = [''/bin/sh''],
                  Env = [''USER=demo'', ''LOGNAME=demo'', ''HOME=/'', ''SHELL=/bin/sh''],
                  Dir = ''/'', Process = Some 100\<rparr>"
    by (simp add: running_eq)
  from signal_forwarded [OF t, of wire demo granted running "''SIGTERM''"] t tr c show ?thesis
    by (simp add: wire_payloads request_types)
qed

subsection \<open>Requests that collect settings\<close>

text \<open>
  C4. An \<open>env\<close> request whose payload does not decode, or decodes with an empty
  \<open>Key\<close>, is answered \<open>false\<close> and changes nothing. One with a non-empty \<open>Key\<close>
  appends \<open>Key=Value\<close> to \<open>env\<close> and is answered \<open>true\<close>, in every state of the
  session: also after a child has been started. The child itself is not touched.
\<close>

theorem env_request_appends:
  assumes "Type req = ''env''"
  shows "(unmarshal_env cd (Payload req) = None \<longrightarrow>
            handle_request cd h oc req s = (s, if WantReply req then [Reply False] else [])) \<and>
         (\<forall>payload. unmarshal_env cd (Payload req) = Some payload \<and> env_Key payload = [] \<longrightarrow>
            handle_request cd h oc req s = (s, if WantReply req then [Reply False] else [])) \<and>
         (\<forall>payload. unmarshal_env cd (Payload req) = Some payload \<and> env_Key payload \<noteq> [] \<longrightarrow>
            handle_request cd h oc req s =
              (s\<lparr>env := env s @ [env_Key payload @ ''='' @ env_Value payload]\<rparr>,
               if WantReply req then [Reply True] else [])) \<and>
         cmd (fst (handle_request cd h oc req s)) = cmd s"
  by (simp add: handle_env [OF assms] reply_def split: option.splits)

theorem env_request_appends_witness:
  "Type env_request = ''env'' \<and>
   unmarshal_env wire (Payload env_request) = Some \<lparr>env_Key = ''LANG'', env_Value = ''C''\<rparr> \<and>
   handle_request wire demo granted env_request (init_session demo []) =
     ((init_session demo [])\<lparr>env := env (init_session demo []) @ [''LANG=C'']\<rparr>, [Reply True]) \<and>
   cmd (fst (handle_request wire demo granted env_request (init_session demo []))) = None"
proof -
  have t: "Type env_request = ''env''" by (simp add: request_types)
  from env_request_appends [OF t, of wire demo granted "init_session demo []"] t show ?thesis
    by (simp add: wire_payloads request_types init_demo)
qed

theorem env_after_start_counterexample:
  "cmd running \<noteq> None \<and>
   Type env_request = ''env'' \<and>
   replies (snd (handle_request wire demo granted env_request running)) = [True] \<and>
   env (fst (handle_request wire demo granted env_request running)) = env running @ [''LANG=C''] \<and>
   env (fst (handle_request wire demo granted env_request running)) \<noteq> env running"
  by (simp add: handle_env request_types wire_payloads reply_def running_eq)

text \<open>
  C5. A \<open>pty-req\<close> request is answered with success exactly when its payload decodes,
  in every state of the session: also after a child has been started. When the payload
  decodes, \<open>wantPTY\<close> is set, \<open>cols\<close> and \<open>rows\<close> are recorded and a non-empty
  \<open>TERM\<close> is appended to \<open>env\<close>; when it does not, nothing changes.
\<close>

theorem pty_req_records:
  assumes "Type req = ''pty-req''"
  shows "(unmarshal_pty_req cd (Payload req) = None \<longrightarrow>
            handle_request cd h oc req s = (s, if WantReply req then [Reply False] else [])) \<and>
         (\<forall>payload. unmarshal_pty_req cd (Payload req) = Some payload \<longrightarrow>
            handle_request cd h oc req s =
              (s\<lparr>wantPTY := True, cols := pty_Cols payload, rows := pty_Rows payload,
                 env := (if pty_Term payload \<noteq> [] then env s @ [''TERM='' @ pty_Term payload] else env s)\<rparr>,
               if WantReply req then [Reply True] else [])) \<and>
         replies (snd (handle_request cd h oc req s)) =
           (if WantReply req then [unmarshal_pty_req cd (Payload req) \<noteq> None] else [])"
  by (simp add: handle_pty_req [OF assms] reply_def split: option.splits)

theorem pty_req_records_witness:
  "Type pty_request = ''pty-req'' \<and>
   unmarshal_pty_req wire (Payload pty_request) =
     Some \<lparr>pty_Term = ''xterm'', pty_Cols = 80, pty_Rows = 24, pty_Width = 0, pty_Height = 0,
           pty_Modes = put_string []\<rparr> \<and>
   handle_request wire demo granted pty_request (init_session demo []) =
     ((init_session demo [])\<lparr>wantPTY := True, cols := 80, rows := 24,
         env := env (init_session demo []) @ [''TERM=xterm'']\<rparr>, [Reply True])"
proof -
  have t: "Type pty_request = ''pty-req''" by (simp add: request_types)
  from pty_req_records [OF t, of wire demo granted "init_session demo []"] t show ?thesis
    by (simp add: wire_payloads request_types)
qed

theorem pty_req_after_start_counterexample:
  "cmd running \<noteq> None \<and>
   Type pty_request = ''pty-req'' \<and>
   replies (snd (handle_request wire demo granted pty_request running)) = [True] \<and>
   \<not> wantPTY running \<and> wantPTY (fst (handle_request wire demo granted pty_request running)) \<and>
   cols running = 0 \<and> cols (fst (handle_request wire demo granted pty_request running)) = 80 \<and>
   rows running = 0 \<and> rows (fst (handle_request wire demo granted pty_request running)) = 24 \<and>
   env (fst (handle_request wire demo granted pty_request running)) = env running @ [''TERM=xterm'']"
  by (simp add: handle_pty_req request_types wire_payloads reply_def running_eq)

text \<open>
  C6. A \<open>window-change\<close> request is answered \<open>true\<close> when an answer is wanted,
  whatever its payload. When a PTY master is open and the payload decodes, \<open>cols\<close>
  and \<open>rows\<close> are set to the payload's values and \<open>pty.Setsize\<close> is called on the
  master with their low 16 bits. When no PTY master is open, or the payload does not
  decode, nothing changes: \<open>cols\<close> and \<open>rows\<close> keep their values.
\<close>

theorem window_change_needs_pty:
  assumes "Type req = ''window-change''"
  shows "replies (snd (handle_request cd h oc req s)) = (if WantReply req then [True] else []) \<and>
         (\<forall>fd payload. ptmx s = Some fd \<and> unmarshal_window_change cd (Payload req) = Some payload \<longrightarrow>
            handle_request cd h oc req s =
              (s\<lparr>cols := wc_Cols payload, rows := wc_Rows payload\<rparr>,
               Setsize fd (ucast (wc_Cols payload)) (ucast (wc_Rows payload)) #
               (if WantReply req then [Reply True] else []))) \<and>
         (ptmx s = None \<or> unmarshal_window_change cd (Payload req) = None \<longrightarrow>
            handle_request cd h oc req s = (s, if WantReply req then [Reply True] else []))"
  by (auto simp: handle_window_change [OF assms] reply_def split: option.splits)

theorem window_change_needs_pty_witness:
  "Type window_request = ''window-change'' \<and>
   ptmx running_pty = Some 3 \<and>
   unmarshal_window_change wire (Payload window_request) =
     Some \<lparr>wc_Cols = 120, wc_Rows = 40, wc_Width = 0, wc_Height = 0\<rparr> \<and>
   handle_request wire demo granted window_request running_pty =
     (running_pty\<lparr>cols := 120, rows := 40\<rparr>, [Setsize 3 120 40, Reply True])"
proof -
  have t: "Type window_request = ''window-change''" by (simp add: request_types)
  have p: "ptmx running_pty = Some 3" by (simp add: running_pty_eq)
  from window_change_needs_pty [OF t, of wire demo granted running_pty] t p show ?thesis
    by (simp add: wire_payloads request_types)
qed

theorem window_change_before_start_counterexample:
  "Type window_request = ''window-change'' \<and>
   unmarshal_window_change wire (Payload window_request) =
     Some \<lparr>wc_Cols = 120, wc_Rows = 40, wc_Width = 0, wc_Height = 0\<rparr> \<and>
   ptmx asked_pty = None \<and>
   handle_request wire demo granted window_request asked_pty = (asked_pty, [Reply True]) \<and>
   cols asked_pty = 80 \<and> rows asked_pty = 24"
  by (simp add: handle_window_change request_types wire_payloads reply_def asked_pty_eq)

subsection \<open>start and the request loop: what they leave alone\<close>

lemma start_running:
  "cmd s \<noteq> None \<Longrightarrow>
   start h oc command s =
     (Some (ErrorString ''session already running''), s, [Log ''WARN'' ''session start rejected''])"
  by (simp add: start_def)

lemma start_frame:
  "case start h oc command s of (err, s', out) \<Rightarrow>
     terminated s' = terminated s \<and> finished s' = finished s \<and> closed s' = closed s \<and>
     statuses out = [] \<and> replies out = []"
  by (simp add: start_def Let_def split: sum.split option.split prod.split)

lemma start_commit:
  "case start h oc command s of (err, s', out) \<Rightarrow>
     length (launches out) \<le> 1 \<and>
     (cmd s \<noteq> None \<longrightarrow> s' = s \<and> launches out = []) \<and>
     (launches out \<noteq> [] \<longrightarrow> cmd s' \<noteq> None) \<and>
     (err = None \<longleftrightarrow> launches out \<noteq> [])"
  by (simp add: start_def Let_def split: sum.split option.split prod.split)

lemma handle_frame:
  "case handle_request cd h oc req s of (s', out) \<Rightarrow>
     terminated s' = terminated s \<and> finished s' = finished s \<and> closed s' = closed s \<and>
     statuses out = []"
proof (cases "Type req = ''shell''")
  case True
  obtain err s1 out1 where st: "start h oc [] s = (err, s1, out1)"
    by (metis prod_cases3)
  from start_frame [where h = h and oc = oc and command = "[]" and s = s] show ?thesis
    by (simp add: handle_shell [OF True] st statuses_append reply_reads)
next
  case shell: False
  show ?thesis
  proof (cases "Type req = ''exec''")
    case True
    show ?thesis
    proof (cases "unmarshal_exec cd (Payload req)")
      case None
      then show ?thesis by (simp add: handle_exec [OF True] reply_reads)
    next
      case (Some payload)
      obtain err s1 out1 where st: "start h oc (exec_Command payload) s = (err, s1, out1)"
        by (metis prod_cases3)
      from start_frame [where h = h and oc = oc and command = "exec_Command payload" and s = s] show ?thesis
        by (simp add: handle_exec [OF True] Some st statuses_append reply_reads)
    qed
  next
    case False
    with shell show ?thesis
      by (simp add: handle_request_def reply_reads statuses_append split: option.split)
  qed
qed

lemma handle_commit:
  "case handle_request cd h oc req s of (s', out) \<Rightarrow>
     length (launches out) \<le> 1 \<and>
     (cmd s \<noteq> None \<longrightarrow> cmd s' = cmd s \<and> launches out = []) \<and>
     (launches out \<noteq> [] \<longrightarrow> cmd s' \<noteq> None)"
proof (cases "Type req = ''shell''")
  case True
  obtain err s1 out1 where st: "start h oc [] s = (err, s1, out1)"
    by (metis prod_cases3)
  from start_commit [where h = h and oc = oc and command = "[]" and s = s] show ?thesis
    by (simp add: handle_shell [OF True] st launches_append reply_reads)
next
  case shell: False
  show ?thesis
  proof (cases "Type req = ''exec''")
    case True
    show ?thesis
    proof (cases "unmarshal_exec cd (Payload req)")
      case None
      then show ?thesis by (simp add: handle_exec [OF True] reply_reads)
    next
      case (Some payload)
      obtain err s1 out1 where st: "start h oc (exec_Command payload) s = (err, s1, out1)"
        by (metis prod_cases3)
      from start_commit [where h = h and oc = oc and command = "exec_Command payload" and s = s] show ?thesis
        by (simp add: handle_exec [OF True] Some st launches_append reply_reads)
    qed
  next
    case False
    with shell show ?thesis
      by (simp add: handle_request_def reply_reads launches_append split: option.split)
  qed
qed

subsection \<open>Events and runs\<close>

lemma step_commit:
  assumes "step cd h ev s = Some (s', out)"
  shows "length (launches out) \<le> 1 \<and> (cmd s \<noteq> None \<longrightarrow> cmd s' = cmd s \<and> launches out = [])"
proof (cases ev)
  case (Req req oc)
  with assms have "handle_request cd h oc req s = (s', out)"
    by (simp add: step_def split: if_splits)
  with handle_commit [where cd = cd and h = h and oc = oc and req = req and s = s]
  show ?thesis by simp
next
  case WaitReturns
  with assms show ?thesis
    by (auto simp: step_def sendExitStatus_def launches_append split: option.splits if_splits)
qed (use assms in \<open>auto simp: step_def split: option.splits if_splits\<close>)

lemma step_status:
  assumes "step cd h ev s = Some (s', out)"
  shows "length (statuses out) \<le> 1"
    and "finished s \<Longrightarrow> finished s' \<and> statuses out = []"
    and "statuses out \<noteq> [] \<Longrightarrow> finished s' \<and> ev = WaitReturns"
    and "terminated s = None \<Longrightarrow>
           statuses out = [] \<and> (terminated s' = None \<or> (\<exists>err. ev = ChildExit err \<and> terminated s' = Some err))"
    and "terminated s = Some err \<Longrightarrow>
           terminated s' = Some err \<and> (\<forall>e. ev \<noteq> ChildExit e) \<and> set (statuses out) \<subseteq> {exit_status err}"
proof -
  have all: "length (statuses out) \<le> 1 \<and>
      (finished s \<longrightarrow> finished s' \<and> statuses out = []) \<and>
      (statuses out \<noteq> [] \<longrightarrow> finished s' \<and> ev = WaitReturns) \<and>
      (terminated s = None \<longrightarrow>
         statuses out = [] \<and> (terminated s' = None \<or> (\<exists>err. ev = ChildExit err \<and> terminated s' = Some err))) \<and>
      (\<forall>err. terminated s = Some err \<longrightarrow>
         terminated s' = Some err \<and> (\<forall>e. ev \<noteq> ChildExit e) \<and> set (statuses out) \<subseteq> {exit_status err})"
  proof (cases ev)
    case (Req req oc)
    with assms have "handle_request cd h oc req s = (s', out)"
      by (simp add: step_def split: if_splits)
    with handle_frame [where cd = cd and h = h and oc = oc and req = req and s = s]
    show ?thesis using Req by simp
  next
    case WaitReturns
    with assms show ?thesis
      by (auto simp: step_def sendExitStatus_def statuses_append split: option.splits if_splits)
  qed (use assms in \<open>auto simp: step_def split: option.splits if_splits\<close>)
  from all show "length (statuses out) \<le> 1" by simp
  from all show "finished s \<Longrightarrow> finished s' \<and> statuses out = []" by simp
  from all show "statuses out \<noteq> [] \<Longrightarrow> finished s' \<and> ev = WaitReturns" by simp
  from all show "terminated s = None \<Longrightarrow>
      statuses out = [] \<and> (terminated s' = None \<or> (\<exists>err. ev = ChildExit err \<and> terminated s' = Some err))"
    by simp
  from all show "terminated s = Some err \<Longrightarrow>
      terminated s' = Some err \<and> (\<forall>e. ev \<noteq> ChildExit e) \<and> set (statuses out) \<subseteq> {exit_status err}"
    by simp
qed

lemma run_Cons:
  assumes "run cd h s (ev # evs) = Some (s'', tr)"
  obtains s' out tr' where "step cd h ev s = Some (s', out)" and "run cd h s' evs = Some (s'', tr')"
    and "tr = Ev ev # map Eff out @ tr'"
  using assms by (auto split: option.splits)

lemma run_commit:
  "run cd h s evs = Some (s', tr) \<Longrightarrow>
   length (launches (effects tr)) \<le> 1 \<and> (cmd s \<noteq> None \<longrightarrow> cmd s' = cmd s \<and> launches (effects tr) = [])"
proof (induction evs arbitrary: s tr)
  case Nil
  then show ?case by simp
next
  case (Cons ev evs)
  from Cons.prems obtain s1 out tr1 where st: "step cd h ev s = Some (s1, out)"
    and rest: "run cd h s1 evs = Some (s', tr1)" and tr: "tr = Ev ev # map Eff out @ tr1"
    by (rule run_Cons)
  note a = step_commit [OF st] and b = Cons.IH [OF rest]
  have l: "launches (effects tr) = launches out @ launches (effects tr1)"
    by (simp add: tr effects_append effects_map_Eff launches_append)
  show ?case
  proof (cases "launches out = []")
    case True
    with a b l show ?thesis by auto
  next
    case False
    with a have "cmd s = None" by auto
    moreover from False st have "cmd s1 \<noteq> None"
    proof (cases ev)
      case (Req req oc)
      with st have "handle_request cd h oc req s = (s1, out)"
        by (simp add: step_def split: if_splits)
      with handle_commit [where cd = cd and h = h and oc = oc and req = req and s = s] False
      show ?thesis by simp
    qed (use False st in \<open>auto simp: step_def sendExitStatus_def split: option.splits if_splits\<close>)
    ultimately show ?thesis using a b l by auto
  qed
qed

lemma run_finished:
  "finished s \<Longrightarrow> run cd h s evs = Some (s', tr) \<Longrightarrow> statuses (effects tr) = []"
proof (induction evs arbitrary: s tr)
  case Nil
  then show ?case by simp
next
  case (Cons ev evs)
  from Cons.prems(2) obtain s1 out tr1 where st: "step cd h ev s = Some (s1, out)"
    and rest: "run cd h s1 evs = Some (s', tr1)" and tr: "tr = Ev ev # map Eff out @ tr1"
    by (rule run_Cons)
  from step_status(2) [OF st Cons.prems(1)] have "finished s1" and "statuses out = []" by simp_all
  with Cons.IH [OF _ rest] show ?case
    by (simp add: tr effects_append effects_map_Eff statuses_append)
qed

lemma run_once:
  "run cd h s evs = Some (s', tr) \<Longrightarrow> length (statuses (effects tr)) \<le> 1"
proof (induction evs arbitrary: s tr)
  case Nil
  then show ?case by simp
next
  case (Cons ev evs)
  from Cons.prems obtain s1 out tr1 where st: "step cd h ev s = Some (s1, out)"
    and rest: "run cd h s1 evs = Some (s', tr1)" and tr: "tr = Ev ev # map Eff out @ tr1"
    by (rule run_Cons)
  have l: "statuses (effects tr) = statuses out @ statuses (effects tr1)"
    by (simp add: tr effects_append effects_map_Eff statuses_append)
  show ?case
  proof (cases "statuses out = []")
    case True
    with Cons.IH [OF rest] l show ?thesis by simp
  next
    case False
    with step_status(3) [OF st] have "finished s1" by simp
    from run_finished [OF this rest] step_status(1) [OF st] l show ?thesis by simp
  qed
qed

lemma split_trace:
  assumes "pre @ x # post = ys @ zs"
  shows "x \<in> set ys \<or> (\<exists>pre'. pre = ys @ pre' \<and> zs = pre' @ x # post)"
proof -
  from assms obtain us where
    "(pre = ys @ us \<and> us @ zs = x # post \<and> False) \<or> (pre = ys @ us \<and> us @ x # post = zs) \<or>
     (pre @ us = ys \<and> x # post = us @ zs)"
    by (auto simp: append_eq_append_conv2)
  then show ?thesis
    by (cases us) auto
qed

lemma Eff_in_map:
  "Eff (ExitStatus st) \<in> set (map Eff out) \<longleftrightarrow> st \<in> set (statuses out)"
  "Eff (ExitStatus st) \<in> Eff ` set out \<longleftrightarrow> st \<in> set (statuses out)"
  by (auto simp: statuses_mem)

lemma run_waited:
  "run cd h s evs = Some (s', tr) \<Longrightarrow> tr = pre @ Eff (ExitStatus st) # post \<Longrightarrow>
   Ev WaitReturns \<in> set pre"
proof (induction evs arbitrary: s tr pre)
  case Nil
  then show ?case by simp
next
  case (Cons ev evs)
  from Cons.prems(1) obtain s1 out tr1 where st: "step cd h ev s = Some (s1, out)"
    and rest: "run cd h s1 evs = Some (s', tr1)" and tr: "tr = Ev ev # map Eff out @ tr1"
    by (rule run_Cons)
  from tr Cons.prems(2) obtain pre1 where pre: "pre = Ev ev # pre1"
    and eq: "pre1 @ Eff (ExitStatus st) # post = map Eff out @ tr1"
    by (cases pre) auto
  from split_trace [OF eq] show ?case
  proof
    assume "Eff (ExitStatus st) \<in> set (map Eff out)"
    then have "statuses out \<noteq> []" by (auto simp: Eff_in_map)
    with step_status(3) [OF st] show ?thesis by (simp add: pre)
  next
    assume "\<exists>pre'. pre1 = map Eff out @ pre' \<and> tr1 = pre' @ Eff (ExitStatus st) # post"
    then obtain pre' where p: "pre1 = map Eff out @ pre'" and t: "tr1 = pre' @ Eff (ExitStatus st) # post"
      by blast
    from Cons.IH [OF rest t] show ?thesis by (simp add: pre p)
  qed
qed

lemma run_terminated:
  "terminated s = Some err \<Longrightarrow> run cd h s evs = Some (s', tr) \<Longrightarrow>
   Eff (ExitStatus st) \<in> set tr \<Longrightarrow> st = exit_status err"
proof (induction evs arbitrary: s tr)
  case Nil
  then show ?case by simp
next
  case (Cons ev evs)
  from Cons.prems(2) obtain s1 out tr1 where st: "step cd h ev s = Some (s1, out)"
    and rest: "run cd h s1 evs = Some (s', tr1)" and tr: "tr = Ev ev # map Eff out @ tr1"
    by (rule run_Cons)
  note a = step_status(5) [OF st Cons.prems(1)]
  from Cons.prems(3) tr have "Eff (ExitStatus st) \<in> set (map Eff out) \<or> Eff (ExitStatus st) \<in> set tr1"
    by auto
  then show ?case
  proof
    assume "Eff (ExitStatus st) \<in> set (map Eff out)"
    then have "st \<in> set (statuses out)" by (simp only: Eff_in_map(1))
    with a show ?thesis by auto
  next
    assume "Eff (ExitStatus st) \<in> set tr1"
    with Cons.IH [OF _ rest] a show ?thesis by simp
  qed
qed

lemma run_after:
  "terminated s = None \<Longrightarrow> run cd h s evs = Some (s', tr) \<Longrightarrow>
   tr = pre @ Eff (ExitStatus st) # post \<Longrightarrow>
   \<exists>err. Ev (ChildExit err) \<in> set pre \<and> st = exit_status err"
proof (induction evs arbitrary: s tr pre)
  case Nil
  then show ?case by simp
next
  case (Cons ev evs)
  from Cons.prems(2) obtain s1 out tr1 where st: "step cd h ev s = Some (s1, out)"
    and rest: "run cd h s1 evs = Some (s', tr1)" and tr: "tr = Ev ev # map Eff out @ tr1"
    by (rule run_Cons)
  note a = step_status(4) [OF st Cons.prems(1)]
  from tr Cons.prems(3) obtain pre1 where pre: "pre = Ev ev # pre1"
    and eq: "pre1 @ Eff (ExitStatus st) # post = map Eff out @ tr1"
    by (cases pre) auto
  from a have "Eff (ExitStatus st) \<notin> set (map Eff out)" by (simp add: Eff_in_map)
  with split_trace [OF eq] obtain pre' where p: "pre1 = map Eff out @ pre'"
    and t: "tr1 = pre' @ Eff (ExitStatus st) # post"
    by blast
  from a show ?case
  proof (elim conjE disjE exE)
    assume "terminated s1 = None"
    from Cons.IH [OF this rest t] show ?thesis by (auto simp: pre p)
  next
    fix err assume ev: "ev = ChildExit err" and dead: "terminated s1 = Some err"
    from t have "Eff (ExitStatus st) \<in> set tr1" by simp
    from run_terminated [OF dead rest this] ev show ?thesis by (auto simp: pre)
  qed
qed

lemma demo_flags:
  "\<not> closed (init_session demo [])" "terminated (init_session demo []) = None"
  "cmd (init_session demo []) = None"
  "\<not> closed running" "terminated running = None" "cmd running \<noteq> None" "reapers running = 1"
  "\<not> finished running" "ptmx running = None"
  by (simp_all add: init_demo running_eq)

lemma short_session_run:
  "run wire demo (init_session demo []) short_session =
     Some (running\<lparr>terminated := Some None, reapers := 0, finished := True\<rparr>,
           [Ev (Req shell_request granted),
            Eff (Launch \<lparr>Path = ''/bin/sh'', Args = [''/bin/sh''],
                        Env = [''USER=demo'', ''LOGNAME=demo'', ''HOME=/'', ''SHELL=/bin/sh''],
                        Dir = ''/'', Process = Some 100\<rparr>),
            Eff (Reply True), Ev (ChildExit None), Ev WaitReturns, Eff (ExitStatus 0)])"
  by (simp add: short_session_def step_def shell_starts demo_flags sendExitStatus_def exit_status_def)

lemma failing_session_run:
  "run wire demo (init_session demo [])
     [Req shell_request granted, ChildExit (Some (ExitError 3)), WaitReturns] =
     Some (running\<lparr>terminated := Some (Some (ExitError 3)), reapers := 0, finished := True\<rparr>,
           [Ev (Req shell_request granted),
            Eff (Launch \<lparr>Path = ''/bin/sh'', Args = [''/bin/sh''],
                        Env = [''USER=demo'', ''LOGNAME=demo'', ''HOME=/'', ''SHELL=/bin/sh''],
                        Dir = ''/'', Process = Some 100\<rparr>),
            Eff (Reply True), Ev (ChildExit (Some (ExitError 3))), Ev WaitReturns, Eff (ExitStatus 3)])"
  by (simp add: step_def shell_starts demo_flags sendExitStatus_def exit_status_def)

lemma second_start_rejected:
  "handle_request wire demo granted exec_request running =
     (running, [Log ''WARN'' ''session start rejected'', Reply False, Log ''ERROR'' ''exec request failed''])"
  "handle_request wire demo granted shell_request running =
     (running, [Log ''WARN'' ''session start rejected'', Reply False, Log ''ERROR'' ''shell request failed''])"
  by (simp_all add: handle_exec handle_shell request_types wire_payloads start_running demo_flags reply_def)

lemma two_starts_run:
  "run wire demo (init_session demo []) [Req shell_request granted, Req exec_request granted] =
     Some (running,
           [Ev (Req shell_request granted),
            Eff (Launch \<lparr>Path = ''/bin/sh'', Args = [''/bin/sh''],
                        Env = [''USER=demo'', ''LOGNAME=demo'', ''HOME=/'', ''SHELL=/bin/sh''],
                        Dir = ''/'', Process = Some 100\<rparr>),
            Eff (Reply True),
            Ev (Req exec_request granted),
            Eff (Log ''WARN'' ''session start rejected''), Eff (Reply False),
            Eff (Log ''ERROR'' ''exec request failed'')])"
  by (simp add: step_def shell_starts second_start_rejected demo_flags)

subsection \<open>One child for each session\<close>

text \<open>
  C1. Once a child has been started (\<open>cmd\<close> is set), \<open>start\<close> returns the error
  \<open>session already running\<close> and leaves the state as it is, and a \<open>shell\<close> or
  \<open>exec\<close> request leaves the state as it is and is answered \<open>false\<close> when an answer
  is wanted. \<open>start\<close> returns no error exactly when it has created a child, and then
  \<open>cmd\<close> is set; a \<open>shell\<close> or \<open>exec\<close> request is answered \<open>true\<close> exactly when
  it has created a child. In every run of a session at most one child is created, and
  none after \<open>cmd\<close> has been set, which no event changes afterwards.
\<close>

theorem single_commit:
  "(cmd s \<noteq> None \<longrightarrow>
      start h oc command s =
        (Some (ErrorString ''session already running''), s, [Log ''WARN'' ''session start rejected''])) \<and>
   (cmd s \<noteq> None \<and> (Type req = ''shell'' \<or> Type req = ''exec'') \<longrightarrow>
      fst (handle_request cd h oc req s) = s \<and>
      replies (snd (handle_request cd h oc req s)) = (if WantReply req then [False] else [])) \<and>
   (fst (start h oc command s) = None \<longleftrightarrow> launches (snd (snd (start h oc command s))) \<noteq> []) \<and>
   (fst (start h oc command s) = None \<longrightarrow> cmd (fst (snd (start h oc command s))) \<noteq> None) \<and>
   (Type req = ''shell'' \<or> Type req = ''exec'' \<longrightarrow>
      replies (snd (handle_request cd h oc req s)) =
        (if WantReply req then [launches (snd (handle_request cd h oc req s)) \<noteq> []] else [])) \<and>
   (\<forall>s' tr. run cd h s evs = Some (s', tr) \<longrightarrow>
      length (launches (effects tr)) \<le> 1 \<and>
      (cmd s \<noteq> None \<longrightarrow> cmd s' = cmd s \<and> launches (effects tr) = []))"
proof -
  obtain err s1 out1 where st: "start h oc command s = (err, s1, out1)"
    by (metis prod_cases3)
  note sc = start_commit [where h = h and oc = oc and command = command and s = s]
  have a: "cmd s \<noteq> None \<longrightarrow>
      start h oc command s =
        (Some (ErrorString ''session already running''), s, [Log ''WARN'' ''session start rejected''])"
    by (simp add: start_running)
  have answered: "replies (snd (handle_request cd h oc req s)) =
        (if WantReply req then [launches (snd (handle_request cd h oc req s)) \<noteq> []] else [])"
    if t: "Type req = ''shell'' \<or> Type req = ''exec''"
  proof (cases "Type req = ''shell''")
    case True
    obtain e2 s2 out2 where st2: "start h oc [] s = (e2, s2, out2)"
      by (metis prod_cases3)
    from start_commit [where h = h and oc = oc and command = "[]" and s = s]
      start_frame [where h = h and oc = oc and command = "[]" and s = s]
    show ?thesis
      by (simp add: handle_shell [OF True] st2 launches_append replies_append reply_reads)
  next
    case False
    with t have ex: "Type req = ''exec''" by simp
    show ?thesis
    proof (cases "unmarshal_exec cd (Payload req)")
      case None
      then show ?thesis by (simp add: handle_exec [OF ex] reply_reads)
    next
      case (Some payload)
      obtain e2 s2 out2 where st2: "start h oc (exec_Command payload) s = (e2, s2, out2)"
        by (metis prod_cases3)
      from start_commit [where h = h and oc = oc and command = "exec_Command payload" and s = s]
        start_frame [where h = h and oc = oc and command = "exec_Command payload" and s = s]
      show ?thesis
        by (simp add: handle_exec [OF ex] Some st2 launches_append replies_append reply_reads)
    qed
  qed
  have b: "cmd s \<noteq> None \<and> (Type req = ''shell'' \<or> Type req = ''exec'') \<longrightarrow>
      fst (handle_request cd h oc req s) = s \<and>
      replies (snd (handle_request cd h oc req s)) = (if WantReply req then [False] else [])"
  proof (intro impI, elim conjE)
    assume c: "cmd s \<noteq> None" and t: "Type req = ''shell'' \<or> Type req = ''exec''"
    obtain s2 out2 where hr: "handle_request cd h oc req s = (s2, out2)"
      by (cases "handle_request cd h oc req s")
    from handle_commit [where cd = cd and h = h and oc = oc and req = req and s = s] c
    have l: "launches out2 = []" by (simp add: hr)
    have "s2 = s"
    proof (cases "Type req = ''shell''")
      case True
      with hr c show ?thesis by (simp add: handle_shell start_running)
    next
      case False
      with t have ex: "Type req = ''exec''" by simp
      with hr c show ?thesis
        by (cases "unmarshal_exec cd (Payload req)") (simp_all add: handle_exec start_running)
    qed
    with answered [OF t] l show "fst (handle_request cd h oc req s) = s \<and>
      replies (snd (handle_request cd h oc req s)) = (if WantReply req then [False] else [])"
      by (simp add: hr)
  qed
  have c: "fst (start h oc command s) = None \<longleftrightarrow> launches (snd (snd (start h oc command s))) \<noteq> []"
    using sc by (simp add: st)
  have d: "fst (start h oc command s) = None \<longrightarrow> cmd (fst (snd (start h oc command s))) \<noteq> None"
    using sc by (simp add: st)
  have e: "Type req = ''shell'' \<or> Type req = ''exec'' \<longrightarrow>
      replies (snd (handle_request cd h oc req s)) =
        (if WantReply req then [launches (snd (handle_request cd h oc req s)) \<noteq> []] else [])"
    using answered by (rule impI)
  have f: "\<forall>s' tr. run cd h s evs = Some (s', tr) \<longrightarrow>
      length (launches (effects tr)) \<le> 1 \<and>
      (cmd s \<noteq> None \<longrightarrow> cmd s' = cmd s \<and> launches (effects tr) = [])"
    using run_commit by blast
  show ?thesis
    by (rule conjI [OF a conjI [OF b conjI [OF c conjI [OF d conjI [OF e f]]]]])
qed

theorem single_commit_witness:
  "cmd running \<noteq> None \<and> Type shell_request = ''shell'' \<and>
   start demo granted [] running =
     (Some (ErrorString ''session already running''), running, [Log ''WARN'' ''session start rejected'']) \<and>
   fst (handle_request wire demo granted shell_request running) = running \<and>
   replies (snd (handle_request wire demo granted shell_request running)) = [False] \<and>
   fst (start demo granted [] (init_session demo [])) = None \<and>
   launches (snd (snd (start demo granted [] (init_session demo [])))) \<noteq> [] \<and>
   cmd (fst (snd (start demo granted [] (init_session demo [])))) \<noteq> None \<and>
   map_option fst (run wire demo (init_session demo []) [Req shell_request granted, Req exec_request granted]) =
     Some running \<and>
   map_option (\<lambda>r. length (launches (effects (snd r))))
     (run wire demo (init_session demo []) [Req shell_request granted, Req exec_request granted]) = Some 1 \<and>
   map_option (\<lambda>r. launches (effects (snd r)))
     (run wire demo running [Req exec_request granted]) = Some []"
proof -
  have ok: "fst (start demo granted [] (init_session demo [])) = None"
    by (simp add: start_def init_demo granted_def Let_def)
  have again: "run wire demo running [Req exec_request granted] =
      Some (running, [Ev (Req exec_request granted), Eff (Log ''WARN'' ''session start rejected''),
                      Eff (Reply False), Eff (Log ''ERROR'' ''exec request failed'')])"
    by (simp add: step_def second_start_rejected demo_flags)
  from single_commit [of running demo granted "[]" shell_request wire "[Req exec_request granted]"]
    single_commit [of "init_session demo []" demo granted "[]" shell_request wire
      "[Req shell_request granted, Req exec_request granted]"]
    ok again
  show ?thesis
    by (simp add: demo_flags request_types two_starts_run del: run.simps)
qed

subsection \<open>The exit status\<close>

text \<open>
  C2. In every run of a session that begins before its child has terminated, the
  \<open>exit-status\<close> request is sent at most once, and wherever it is sent the trace
  before it holds the termination of the child and a return of \<open>c.Wait()\<close>.
\<close>

theorem exit_status_once:
  assumes "terminated s = None" and "run cd h s evs = Some (s', tr)"
  shows "length (statuses (effects tr)) \<le> 1 \<and>
         (\<forall>pre st post. tr = pre @ Eff (ExitStatus st) # post \<longrightarrow>
            (\<exists>err. Ev (ChildExit err) \<in> set pre) \<and> Ev WaitReturns \<in> set pre)"
proof (intro conjI allI impI)
  show "length (statuses (effects tr)) \<le> 1"
    using assms(2) by (rule run_once)
next
  fix pre st post assume "tr = pre @ Eff (ExitStatus st) # post"
  from run_after [OF assms this] show "\<exists>err. Ev (ChildExit err) \<in> set pre" by blast
next
  fix pre st post assume "tr = pre @ Eff (ExitStatus st) # post"
  with assms(2) show "Ev WaitReturns \<in> set pre" by (rule run_waited)
qed

theorem exit_status_once_witness:
  "terminated (init_session demo []) = None \<and>
   map_option (\<lambda>r. statuses (effects (snd r))) (run wire demo (init_session demo []) short_session) = Some [0] \<and>
   map_option (\<lambda>r. take 5 (snd r)) (run wire demo (init_session demo []) short_session) =
     Some [Ev (Req shell_request granted),
           Eff (Launch \<lparr>Path = ''/bin/sh'', Args = [''/bin/sh''],
                       Env = [''USER=demo'', ''LOGNAME=demo'', ''HOME=/'', ''SHELL=/bin/sh''],
                       Dir = ''/'', Process = Some 100\<rparr>),
           Eff (Reply True), Ev (ChildExit None), Ev WaitReturns] \<and>
   map_option (\<lambda>r. drop 5 (snd r)) (run wire demo (init_session demo []) short_session) =
     Some [Eff (ExitStatus 0)]"
  using exit_status_once [OF demo_flags(2) short_session_run]
  by (simp add: demo_flags short_session_run)

text \<open>
  C8. The status sent is computed from what \<open>c.Wait()\<close> returned: 0 for \<open>nil\<close>; for
  an exit error with a code that is not negative, the code (its low 32 bits, so the code
  itself below \<open>2^32\<close>); 255 for an exit error with a negative code, which is what
  \<open>ExitCode()\<close> gives for a child killed by a signal, and for any other error. In
  every run that begins before the child has terminated, each \<open>exit-status\<close> sent
  carries the status computed from the termination that precedes it.
\<close>

theorem exit_status_mapping:
  "exit_status None = 0 \<and>
   (0 \<le> code \<longrightarrow> exit_status (Some (ExitError code)) = word_of_int code) \<and>
   (0 \<le> code \<and> code < 2 ^ 32 \<longrightarrow> uint (exit_status (Some (ExitError code))) = code) \<and>
   (code < 0 \<longrightarrow> exit_status (Some (ExitError code)) = 255) \<and>
   exit_status (Some (WaitFailed e)) = 255 \<and>
   sendExitStatus err = [ExitStatus (exit_status err)] \<and>
   (\<forall>s' tr pre st post.
      terminated s = None \<and> run cd h s evs = Some (s', tr) \<and> tr = pre @ Eff (ExitStatus st) # post \<longrightarrow>
      (\<exists>err. Ev (ChildExit err) \<in> set pre \<and> st = exit_status err))"
proof -
  have small: "0 \<le> code \<and> code < 2 ^ 32 \<longrightarrow> uint (exit_status (Some (ExitError code))) = code"
    by (simp add: exit_status_def uint_word_of_int take_bit_int_eq_self)
  have runs: "\<forall>s' tr pre st post.
      terminated s = None \<and> run cd h s evs = Some (s', tr) \<and> tr = pre @ Eff (ExitStatus st) # post \<longrightarrow>
      (\<exists>err. Ev (ChildExit err) \<in> set pre \<and> st = exit_status err)"
    using run_after by blast
  from small runs show ?thesis
    by (simp add: exit_status_def sendExitStatus_def)
qed

theorem exit_status_mapping_witness:
  "exit_status (Some (ExitError 3)) = 3 \<and> uint (exit_status (Some (ExitError 3))) = 3 \<and>
   exit_status (Some (ExitError (- 1))) = 255 \<and>
   terminated (init_session demo []) = None \<and>
   map_option (\<lambda>r. take 5 (snd r))
     (run wire demo (init_session demo []) [Req shell_request granted, ChildExit (Some (ExitError 3)), WaitReturns]) =
     Some [Ev (Req shell_request granted),
           Eff (Launch \<lparr>Path = ''/bin/sh'', Args = [''/bin/sh''],
                       Env = [''USER=demo'', ''LOGNAME=demo'', ''HOME=/'', ''SHELL=/bin/sh''],
                       Dir = ''/'', Process = Some 100\<rparr>),
           Eff (Reply True), Ev (ChildExit (Some (ExitError 3))), Ev WaitReturns] \<and>
   map_option (\<lambda>r. drop 5 (snd r))
     (run wire demo (init_session demo []) [Req shell_request granted, ChildExit (Some (ExitError 3)), WaitReturns]) =
     Some [Eff (ExitStatus (exit_status (Some (ExitError 3))))]"
  using exit_status_mapping [of 3 _ _ "init_session demo []" wire demo
      "[Req shell_request granted, ChildExit (Some (ExitError 3)), WaitReturns]"]
    exit_status_mapping [of "- 1"]
  by (simp add: demo_flags failing_session_run del: run.simps)

section \<open>Properties of authentication, the host key and the configuration\<close>

subsection \<open>The comparison of passwords\<close>

lemma xor_zero_word: "(x XOR y = 0) = (x = y)" for x y :: "'a::len word"
proof
  assume h: "x XOR y = 0"
  have "x = (x XOR y) XOR y" by (simp add: xor.assoc)
  then show "x = y" using h by simp
qed simp

lemma unat_byte_less: "unat (w :: 8 word) < 256"
  using unsigned_less [of w, where ?'a = nat] by simp

lemma unat_ucast_byte: "unat (ucast (w::8 word) :: 32 word) = unat w"
proof -
  have "unat w < 2 ^ 32" using unat_byte_less [of w] by simp
  then show ?thesis by (simp add: unsigned_ucast_eq take_bit_nat_eq_self)
qed

lemma drop_bit_31_small:
  fixes w :: "8 word"
  assumes "w \<noteq> 0"
  shows "drop_bit 31 ((ucast w :: 32 word) - 1) = 0"
proof -
  have nz: "(ucast w :: 32 word) \<noteq> 0"
  proof
    assume "(ucast w :: 32 word) = 0"
    then have "unat (ucast w :: 32 word) = 0" by simp
    then have "unat w = 0" by (simp only: unat_ucast_byte)
    with assms show False by (simp add: unsigned_eq_0_iff)
  qed
  have "unat ((ucast w :: 32 word) - 1) = unat (ucast w :: 32 word) - 1"
    using nz by (rule unat_minus_one)
  then have "unat ((ucast w :: 32 word) - 1) < 2 ^ 31"
    using unat_byte_less [of w] by (simp add: unat_ucast_byte)
  then have "unat (drop_bit 31 ((ucast w :: 32 word) - 1)) = 0"
    by (simp only: unat_drop_bit_eq) (simp add: drop_bit_eq_div)
  then show ?thesis by (simp add: unsigned_eq_0_iff)
qed

lemma ConstantTimeByteEq_eq: "ConstantTimeByteEq x y = (if x = y then 1 else 0)"
proof (cases "x = y")
  case True
  then show ?thesis by (simp add: ConstantTimeByteEq_def)
next
  case False
  then have "x XOR y \<noteq> 0" by (simp add: xor_zero_word)
  then show ?thesis using False by (simp add: ConstantTimeByteEq_def drop_bit_31_small)
qed

lemma unat_of_char_byte: "unat (of_char a :: 8 word) = of_char a"
proof -
  have "unat (of_char a :: 8 word) = of_char a mod 2 ^ 8"
    using unat_of_nat [of "of_char a", where ?'a = 8] by (simp add: of_nat_of_char)
  moreover have "(of_char a :: nat) < 2 ^ 8" by simp
  ultimately show ?thesis by simp
qed

lemma of_char_byte_inj: "(of_char a :: 8 word) = of_char b \<longleftrightarrow> a = b"
proof
  assume h: "(of_char a :: 8 word) = of_char b"
  then have "unat (of_char a :: 8 word) = unat (of_char b :: 8 word)" by simp
  then have "(of_char a :: nat) = of_char b" by (simp only: unat_of_char_byte)
  then show "a = b" by simp
qed simp

lemma fold_or_zero:
  "foldl (\<lambda>v (a, b). v OR (of_char a XOR of_char b)) (v0 :: 8 word) ps = 0
     \<longleftrightarrow> v0 = 0 \<and> (\<forall>(a, b) \<in> set ps. a = b)"
  by (induction ps arbitrary: v0)
     (auto simp: or_eq_0_iff xor_zero_word of_char_byte_inj split: prod.splits)

lemma ConstantTimeCompare_eq: "ConstantTimeCompare x y = 1 \<longleftrightarrow> x = y"
  by (auto simp: ConstantTimeCompare_def ConstantTimeByteEq_eq fold_or_zero list_eq_iff_zip_eq)

lemma validateUser_accepts: "validateUser creds u pw = None \<longleftrightarrow> creds u = Some pw"
  by (auto simp: validateUser_def ConstantTimeCompare_eq split: option.splits)

text \<open>
  The errors that \<open>validateUser\<close> returns for an unknown user and for a wrong
  password are different values; they stay on the server.
\<close>

lemma validateUser_errors:
  "creds u = None \<Longrightarrow> validateUser creds u pw = Some (ErrorString (''unknown user '' @ u))"
  "creds u = Some expected \<Longrightarrow> expected \<noteq> pw \<Longrightarrow>
     validateUser creds u pw = Some (ErrorString (''invalid credentials for '' @ u))"
  by (simp_all add: validateUser_def ConstantTimeCompare_eq)

text \<open>
  C3. \<open>validateUser\<close> returns no error exactly when the user is in the credential
  set with the password supplied, so it rejects when the user is absent and when the
  password differs, however the two differ. In both cases the peer is sent the same
  failure message: an attempt with an unknown user and an attempt with a wrong
  password for a known user cannot be told apart by what is sent.
\<close>

theorem auth_rejection_indistinct:
  "(validateUser creds u pw = None \<longleftrightarrow> creds u = Some pw) \<and>
   (creds u = None \<longrightarrow> validateUser creds u pw \<noteq> None) \<and>
   (\<forall>expected. creds u = Some expected \<and> expected \<noteq> pw \<longrightarrow> validateUser creds u pw \<noteq> None) \<and>
   (ConstantTimeCompare x y = 1 \<longleftrightarrow> x = y) \<and>
   (creds u \<noteq> Some pw \<longrightarrow> password_auth creds u pw = USERAUTH_FAILURE) \<and>
   (\<forall>u' pw' expected. creds u = None \<and> creds u' = Some expected \<and> expected \<noteq> pw' \<longrightarrow>
      password_auth creds u pw = password_auth creds u' pw')"
proof -
  have fail: "password_auth creds v p = USERAUTH_FAILURE" if "creds v \<noteq> Some p" for v p
    using that validateUser_accepts [of creds v p]
    by (simp add: password_auth_def split: option.splits)
  have same: "\<forall>u' pw' expected. creds u = None \<and> creds u' = Some expected \<and> expected \<noteq> pw' \<longrightarrow>
      password_auth creds u pw = password_auth creds u' pw'"
    by (simp add: fail)
  from same show ?thesis
    by (simp add: validateUser_accepts ConstantTimeCompare_eq fail)
qed

theorem auth_rejection_indistinct_witness:
  "Credentials demo_config ''nobody'' = None \<and>
   Credentials demo_config ''demo'' = Some ''pw'' \<and>
   validateUser (Credentials demo_config) ''nobody'' ''pw'' \<noteq> None \<and>
   validateUser (Credentials demo_config) ''demo'' ''wrong'' \<noteq> None \<and>
   validateUser (Credentials demo_config) ''demo'' ''pw'' = None \<and>
   password_auth (Credentials demo_config) ''nobody'' ''pw'' = USERAUTH_FAILURE \<and>
   password_auth (Credentials demo_config) ''nobody'' ''pw'' =
     password_auth (Credentials demo_config) ''demo'' ''wrong''"
proof -
  have a: "Credentials demo_config ''nobody'' = None"
    and b: "Credentials demo_config ''demo'' = Some ''pw''"
    by (simp_all add: Credentials_def demo_config_def)
  from auth_rejection_indistinct [of "Credentials demo_config" "''nobody''" "''pw''"]
    auth_rejection_indistinct [of "Credentials demo_config" "''demo''" "''wrong''"]
    auth_rejection_indistinct [of "Credentials demo_config" "''demo''" "''pw''"] a b
  show ?thesis by simp
qed

subsection \<open>The host key\<close>

text \<open>
  C7. When something exists at the host-key path (reading it does not fail with
  \<open>os.ErrNotExist\<close>), \<open>loadOrCreateHostKey\<close> never calls \<open>os.WriteFile\<close>. When
  the directory is there and the file can be read, the result is the parse of the
  bytes read, after the two calls \<open>os.MkdirAll\<close> and \<open>os.ReadFile\<close>; when the
  file cannot be read the result is the error \<open>read host key\<close>.
\<close>

theorem host_key_never_rewritten:
  assumes "exists_at os path"
  shows "filter is_WriteFile (snd (loadOrCreateHostKey os path)) = [] \<and>
         (\<forall>pemBytes. os_MkdirAll os (filepath_Dir os path) = None \<and> os_ReadFile os path = Inr pemBytes \<longrightarrow>
            loadOrCreateHostKey os path =
              (parseHostKey os pemBytes, [MkdirAll (filepath_Dir os path) 448, ReadFile path])) \<and>
         (\<forall>err. os_MkdirAll os (filepath_Dir os path) = None \<and> os_ReadFile os path = Inl err \<longrightarrow>
            loadOrCreateHostKey os path =
              (Inl (Wrapped ''read host key'' err), [MkdirAll (filepath_Dir os path) 448, ReadFile path]))"
proof (cases "os_MkdirAll os (filepath_Dir os path)")
  case (Some err)
  then show ?thesis by (simp add: loadOrCreateHostKey_def)
next
  case None
  show ?thesis
  proof (cases "os_ReadFile os path")
    case (Inl err)
    with assms have "\<not> is_ErrNotExist err" by (simp add: exists_at_def)
    with None Inl show ?thesis by (simp add: loadOrCreateHostKey_def)
  next
    case (Inr pemBytes)
    with None show ?thesis by (simp add: loadOrCreateHostKey_def)
  qed
qed

theorem host_key_never_rewritten_witness:
  "loadOrCreateHostKey first_boot ''/etc/tinyssh/host_key'' =
     (Inr ''signer of PEM key'',
      [MkdirAll ''/etc/tinyssh'' 448, ReadFile ''/etc/tinyssh/host_key'',
       WriteFile ''/etc/tinyssh/host_key'' ''PEM key'' 384]) \<and>
   exists_at later_boot ''/etc/tinyssh/host_key'' \<and>
   loadOrCreateHostKey later_boot ''/etc/tinyssh/host_key'' =
     (Inr ''signer of PEM key'', [MkdirAll ''/etc/tinyssh'' 448, ReadFile ''/etc/tinyssh/host_key'']) \<and>
   filter is_WriteFile (snd (loadOrCreateHostKey later_boot ''/etc/tinyssh/host_key'')) = []"
proof -
  have e: "exists_at later_boot ''/etc/tinyssh/host_key''"
    by (simp add: exists_at_def later_boot_def first_boot_def)
  have f: "loadOrCreateHostKey first_boot ''/etc/tinyssh/host_key'' =
     (Inr ''signer of PEM key'',
      [MkdirAll ''/etc/tinyssh'' 448, ReadFile ''/etc/tinyssh/host_key'',
       WriteFile ''/etc/tinyssh/host_key'' ''PEM key'' 384])"
    by (simp add: loadOrCreateHostKey_def first_boot_def generateHostKey_def parseHostKey_def)
  from host_key_never_rewritten [OF e] e f show ?thesis
    by (simp add: later_boot_def first_boot_def parseHostKey_def)
qed

subsection \<open>The listen address\<close>

lemma validate_users_other:
  "validate_users pf seen us \<noteq> Some (ErrorString ''listen address is required'')"
  by (induction us arbitrary: seen) (simp_all add: Let_def)

lemma ListenAddress_applyDefaults:
  "ListenAddress (applyDefaults pf c) =
     (if ListenAddress c = [] then (if 0 < ListenPort c then '':'' @ Sprintf_d (ListenPort c) else '':2222'')
      else ListenAddress c)"
  by (simp add: applyDefaults_def Let_def)

text \<open>
  C10. \<open>applyDefaults\<close> turns an empty listen address into \<open>:\<close> followed by the
  port in decimal when the port is positive, and into \<open>:2222\<close> otherwise, and keeps
  an address that is not empty. So the address is never empty afterwards, \<open>validate\<close>
  after \<open>applyDefaults\<close> never returns \<open>listen address is required\<close>, and \<open>Load\<close>
  never fails with that error.
\<close>

theorem listen_address_defaulted:
  "(ListenAddress c = [] \<longrightarrow>
      ListenAddress (applyDefaults pf c) =
        (if 0 < ListenPort c then '':'' @ Sprintf_d (ListenPort c) else '':2222'')) \<and>
   (ListenAddress c \<noteq> [] \<longrightarrow> ListenAddress (applyDefaults pf c) = ListenAddress c) \<and>
   ListenAddress (applyDefaults pf c) \<noteq> [] \<and>
   validate pf (applyDefaults pf c) \<noteq> Some (ErrorString ''listen address is required'') \<and>
   Load pf path \<noteq> Inl (ErrorString ''listen address is required'')"
proof -
  have nonempty: "ListenAddress (applyDefaults pf c') \<noteq> []" for c'
    by (simp add: ListenAddress_applyDefaults)
  have valid: "validate pf (applyDefaults pf c') \<noteq> Some (ErrorString ''listen address is required'')" for c'
    using nonempty [of c'] by (simp add: validate_def validate_users_other)
  have load: "Load pf path \<noteq> Inl (ErrorString ''listen address is required'')"
    using valid by (auto simp: Load_def Let_def split: sum.splits option.splits)
  from nonempty valid load show ?thesis
    by (simp add: ListenAddress_applyDefaults)
qed

theorem listen_address_defaulted_witness:
  "ListenAddress demo_config = [] \<and> 0 < ListenPort demo_config \<and>
   ListenAddress (applyDefaults port_only demo_config) = '':2022'' \<and>
   ListenAddress (applyDefaults port_only (demo_config\<lparr>ListenPort := 0\<rparr>)) = '':2222'' \<and>
   ListenAddress (applyDefaults port_only (demo_config\<lparr>ListenAddress := ''0.0.0.0:22''\<rparr>)) = ''0.0.0.0:22'' \<and>
   Load port_only ''/etc/tinyssh/config.json'' =
     Inr (demo_config\<lparr>ListenAddress := '':2022'', configDir := ''/etc/tinyssh''\<rparr>)"
proof -
  have l: "Load port_only ''/etc/tinyssh/config.json'' =
     Inr (demo_config\<lparr>ListenAddress := '':2022'', configDir := ''/etc/tinyssh''\<rparr>)"
    by (simp add: Load_def port_only_def demo_config_def applyDefaults_def validate_def Let_def
        Sprintf_d_def decimal.simps digit_def)
  from listen_address_defaulted [of demo_config port_only "''/etc/tinyssh/config.json''"]
    listen_address_defaulted [of "demo_config\<lparr>ListenPort := 0\<rparr>" port_only]
    listen_address_defaulted [of "demo_config\<lparr>ListenAddress := ''0.0.0.0:22''\<rparr>" port_only]
    l
  show ?thesis
    by (simp add: demo_config_def Sprintf_d_def decimal.simps digit_def)
qed

end
